theory Spec2Isabelle
  imports Complex_Main "HOL-Library.Char_ord" "HOL-Library.List_Lexorder" "HOL-Library.Multiset"
begin

section \<open>The filesystem seen by the dashboard\<close>

text \<open>
  \<^verbatim>\<open>src/app.py\<close> reads the disk through \<^verbatim>\<open>pathlib\<close>: \<^verbatim>\<open>Path.exists\<close>, \<^verbatim>\<open>Path.is_dir\<close>,
  \<^verbatim>\<open>Path.iterdir\<close>, \<^verbatim>\<open>Path.name\<close> and the join operator \<^verbatim>\<open>/\<close>. The disk is a tree: a node
  is a regular file or a directory, and a directory is a finite map from entry names to
  nodes, written as an association list that is read with \<open>map_of\<close>. A path is the list of
  the names walked from the top of the tree. Each token joined by the program (a site
  name, a folder name, a file name) is one entry name; a relative path such as
  \<^verbatim>\<open>Path("Renewable Portfolio LLC")\<close> is the working directory followed by that name.
  Symbolic links and access rights are not part of the tree.
\<close>

datatype node = File | Dir "(string \<times> node) list"

type_synonym path = "string list"

fun fs_lookup :: "node \<Rightarrow> path \<Rightarrow> node option" where
  "fs_lookup n [] = Some n"
| "fs_lookup File (c # cs) = None"
| "fs_lookup (Dir es) (c # cs) =
     (case map_of es c of None \<Rightarrow> None | Some n \<Rightarrow> fs_lookup n cs)"

text \<open>\<^verbatim>\<open>Path.exists()\<close>: the path leads to a node, of either kind.\<close>

definition path_exists :: "node \<Rightarrow> path \<Rightarrow> bool" where
  "path_exists fs p = (case fs_lookup fs p of None \<Rightarrow> False | Some n \<Rightarrow> True)"

text \<open>\<^verbatim>\<open>Path.is_dir()\<close>: the path leads to a directory.\<close>

definition is_dir :: "node \<Rightarrow> path \<Rightarrow> bool" where
  "is_dir fs p = (case fs_lookup fs p of Some (Dir es) \<Rightarrow> True | _ \<Rightarrow> False)"

text \<open>\<^verbatim>\<open>Path.name\<close>: the last component, the empty string for the top of the tree.\<close>

definition path_name :: "path \<Rightarrow> string" where
  "path_name p = (if p = [] then [] else last p)"

datatype py_error =
  FileNotFoundError | NotADirectoryError | KeyError string | UnboundLocalError string
  | ReadError | ValueError

text \<open>
  \<^verbatim>\<open>Path.iterdir()\<close>: the entry names of a directory, each once (the order is the
  operating system's); it raises on a missing path and on a regular file.
\<close>

definition iterdir :: "node \<Rightarrow> path \<Rightarrow> py_error + string list" where
  "iterdir fs p =
     (case fs_lookup fs p of
        None \<Rightarrow> Inl FileNotFoundError
      | Some File \<Rightarrow> Inl NotADirectoryError
      | Some (Dir es) \<Rightarrow> Inr (remdups (map fst es)))"

text \<open>\<^verbatim>\<open>str.startswith\<close>.\<close>

definition startswith :: "string \<Rightarrow> string \<Rightarrow> bool" where
  "startswith s pre = (take (length pre) s = pre)"

section \<open>The dashboard object\<close>

text \<open>
  \<^verbatim>\<open>RenewablePortfolioDashboard\<close> keeps the portfolio root and the cache of the site
  list. (Its per-site file inventory cache is written by \<^verbatim>\<open>get_available_files\<close> only and
  is left out.)
\<close>

record dashboard =
  portfolio_path :: path
  sites_cache :: "string list option"

definition PARQUET_ROOT :: string where
  "PARQUET_ROOT = ''Renewable Portfolio LLC_parquet''"

definition LLC_ROOT :: string where
  "LLC_ROOT = ''Renewable Portfolio LLC''"

text \<open>
  \<^verbatim>\<open>__init__(self, base_path=None)\<close>, lines 51-83. \<open>cwd\<close> is the working directory of the
  process. The two \<^verbatim>\<open>print\<close> calls and the count of parquet files that is only printed
  are left out.
\<close>

definition init_base :: "node \<Rightarrow> path \<Rightarrow> path option \<Rightarrow> path" where
  "init_base fs cwd base_path =
     (case base_path of
        None \<Rightarrow>
          (if path_exists fs (cwd @ [PARQUET_ROOT]) then cwd @ [PARQUET_ROOT]
           else if path_exists fs (cwd @ [LLC_ROOT]) then cwd @ [LLC_ROOT]
           else cwd)
      | Some b \<Rightarrow> b)"

definition init :: "node \<Rightarrow> path \<Rightarrow> path option \<Rightarrow> dashboard" where
  "init fs cwd base_path =
     (let p = init_base fs cwd base_path;
          p' = (if path_name p \<in> set [LLC_ROOT, PARQUET_ROOT] then p
                else if path_exists fs (p @ [PARQUET_ROOT]) then p @ [PARQUET_ROOT]
                else if path_exists fs (p @ [LLC_ROOT]) then p @ [LLC_ROOT]
                else p)
      in \<lparr> portfolio_path = p', sites_cache = None \<rparr>)"

text \<open>
  \<^verbatim>\<open>get_all_sites(self)\<close>, lines 85-97: the loop over \<^verbatim>\<open>iterdir()\<close> keeps the names that
  pass both tests, \<^verbatim>\<open>sorted\<close> orders them, and the result is stored in the cache, which
  every later call returns as it is.
\<close>

definition METRIC_FOLDERS :: "string list" where
  "METRIC_FOLDERS = [''Generation'', ''Price_da'', ''Price_rt'', ''Revenue_da'', ''Revenue_rt'']"

definition is_site :: "node \<Rightarrow> path \<Rightarrow> string \<Rightarrow> bool" where
  "is_site fs base item =
     (is_dir fs (base @ [item]) \<and> \<not> startswith item ''bootstrap_selections'' \<and>
      (path_exists fs (base @ [item, ''Generation'']) \<or> path_exists fs (base @ [item, ''Price_da'']) \<or>
       path_exists fs (base @ [item, ''Price_rt'']) \<or> path_exists fs (base @ [item, ''Revenue_da'']) \<or>
       path_exists fs (base @ [item, ''Revenue_rt''])))"

definition get_all_sites :: "node \<Rightarrow> dashboard \<Rightarrow> py_error + (string list \<times> dashboard)" where
  "get_all_sites fs self =
     (case sites_cache self of
        Some cached \<Rightarrow> Inr (cached, self)
      | None \<Rightarrow>
          (case iterdir fs (portfolio_path self) of
             Inl e \<Rightarrow> Inl e
           | Inr items \<Rightarrow>
               (let sites = sort (filter (is_site fs (portfolio_path self)) items)
                in Inr (sites, self\<lparr> sites_cache := Some sites \<rparr>))))"

section \<open>The path resolver\<close>

text \<open>
  The \<^verbatim>\<open>folder_map\<close> dictionary of the three resolvers and \<^verbatim>\<open>folder_map.get(m, m)\<close>.
\<close>

definition folder_map :: "(string \<times> string) list" where
  "folder_map =
     [(''generation'', ''Generation''), (''price_da'', ''Price_da''), (''price_rt'', ''Price_rt''),
      (''revenue_da'', ''Revenue_da''), (''revenue_rt'', ''Revenue_rt'')]"

definition folder_map_get :: "string \<Rightarrow> string" where
  "folder_map_get metric_type =
     (case map_of folder_map metric_type of Some folder \<Rightarrow> folder | None \<Rightarrow> metric_type)"

text \<open>The f-string \<^verbatim>\<open>f"{site_name}_{metric_type}_{temporal}_{category}.parquet"\<close>.\<close>

definition parquet_filename :: "string \<Rightarrow> string \<Rightarrow> string \<Rightarrow> string \<Rightarrow> string" where
  "parquet_filename site_name metric_type temporal category =
     site_name @ ''_'' @ metric_type @ ''_'' @ temporal @ ''_'' @ category @ ''.parquet''"

text \<open>
  \<^verbatim>\<open>find_distribution_file\<close>, lines 140-171. The function also prints the path it missed
  and, when the distribution directory exists, the parquet files in it; printing returns
  nothing and the listing of \<^verbatim>\<open>glob\<close> is empty on anything that is not a directory.
\<close>

definition find_distribution_file :: "node \<Rightarrow> dashboard \<Rightarrow> string \<Rightarrow> string \<Rightarrow> string \<Rightarrow> path option" where
  "find_distribution_file fs self site_name metric_type temporal =
     (let metric_folder = portfolio_path self @ [site_name] @ [folder_map_get metric_type] in
      if \<not> path_exists fs metric_folder then None
      else
        let dist_path = metric_folder @ [''forecast''] @ [''distribution''] in
        if \<not> path_exists fs dist_path then None
        else
          let file_path = dist_path @ [parquet_filename site_name metric_type temporal ''distribution''] in
          if path_exists fs file_path then Some file_path else None)"

text \<open>\<^verbatim>\<open>find_timeseries_file\<close>, lines 173-195.\<close>

definition find_timeseries_file :: "node \<Rightarrow> dashboard \<Rightarrow> string \<Rightarrow> string \<Rightarrow> string \<Rightarrow> path option" where
  "find_timeseries_file fs self site_name metric_type temporal =
     (let metric_folder = portfolio_path self @ [site_name] @ [folder_map_get metric_type] in
      if \<not> path_exists fs metric_folder then None
      else
        let ts_path = metric_folder @ [''forecast''] @ [''timeseries''] in
        if \<not> path_exists fs ts_path then None
        else
          let file_path = ts_path @ [parquet_filename site_name metric_type temporal ''timeseries''] in
          if path_exists fs file_path then Some file_path else None)"

text \<open>\<^verbatim>\<open>find_historical_file\<close>, lines 197-217.\<close>

definition find_historical_file :: "node \<Rightarrow> dashboard \<Rightarrow> string \<Rightarrow> string \<Rightarrow> string \<Rightarrow> path option" where
  "find_historical_file fs self site_name metric_type temporal =
     (let metric_folder = portfolio_path self @ [site_name] @ [folder_map_get metric_type];
          hist_path = metric_folder @ [''historical''] in
      if \<not> path_exists fs hist_path then None
      else
        let file_path = hist_path @ [parquet_filename site_name metric_type temporal ''historical''] in
        if path_exists fs file_path then Some file_path else None)"

section \<open>Tables\<close>

text \<open>
  A table read by \<^verbatim>\<open>pd.read_parquet\<close> has named columns and rows. In a historical file the
  calendar columns \<^verbatim>\<open>year\<close>, \<^verbatim>\<open>month\<close>, \<^verbatim>\<open>day\<close>, \<^verbatim>\<open>hour\<close> are integer columns and every
  other column is a float column: a row gives an integer for a calendar column name and a
  float entry for any other name, where a float is a real number (rounding is not
  modelled) and \<open>None\<close> is a missing entry (NaN or null). Only the names listed in
  \<open>columns\<close> are columns of the file; reading another one raises \<^verbatim>\<open>KeyError\<close>.
\<close>

record 'r dataframe =
  columns :: "string list"
  rows :: "'r list"

record hist_row =
  cal :: "string \<Rightarrow> int"
  val :: "string \<Rightarrow> real option"

text \<open>\<^verbatim>\<open>Series.dropna()\<close> and \<^verbatim>\<open>Series.mean()\<close>, which skips missing entries.\<close>

definition dropna :: "real option list \<Rightarrow> real list" where
  "dropna xs = concat (map (\<lambda>x. case x of None \<Rightarrow> [] | Some v \<Rightarrow> [v]) xs)"

definition series_mean :: "real option list \<Rightarrow> real option" where
  "series_mean xs =
     (let vs = dropna xs in if vs = [] then None else Some (sum_list vs / real (length vs)))"

text \<open>
  \<^verbatim>\<open>df.groupby(keys)[value_col].mean().reset_index()\<close>: one row for each distinct key among
  the rows, in ascending (lexicographic) order of the key, with the mean of the value
  column over the rows of that key. A key that is not a column raises \<^verbatim>\<open>KeyError\<close>.
\<close>

definition row_key :: "string list \<Rightarrow> hist_row \<Rightarrow> int list" where
  "row_key keys r = map (cal r) keys"

definition group_values :: "string list \<Rightarrow> string \<Rightarrow> hist_row list \<Rightarrow> int list \<Rightarrow> real option list" where
  "group_values keys value_col rs k = map (\<lambda>r. val r value_col) (filter (\<lambda>r. row_key keys r = k) rs)"

definition group_mean :: "string list \<Rightarrow> string \<Rightarrow> hist_row list \<Rightarrow> int list \<Rightarrow> int list \<times> real option" where
  "group_mean keys value_col rs k = (k, series_mean (group_values keys value_col rs k))"

definition groupby_mean :: "string list \<Rightarrow> string \<Rightarrow> hist_row list \<Rightarrow> (int list \<times> real option) list" where
  "groupby_mean keys value_col rs =
     map (group_mean keys value_col rs) (sort (remdups (map (row_key keys) rs)))"

definition groupby_mean_frame ::
  "string list \<Rightarrow> string list \<Rightarrow> string \<Rightarrow> hist_row list \<Rightarrow> py_error + (int list \<times> real option) dataframe" where
  "groupby_mean_frame cols keys value_col rs =
     (case filter (\<lambda>k. k \<notin> set cols) keys of
        k # ks \<Rightarrow> Inl (KeyError k)
      | [] \<Rightarrow> Inr \<lparr> columns = keys @ [''historical_avg''], rows = groupby_mean keys value_col rs \<rparr>)"

text \<open>The slice \<^verbatim>\<open>xs[i:]\<close> of Python, for any integer \<open>i\<close>.\<close>

definition py_slice_from :: "'a list \<Rightarrow> int \<Rightarrow> 'a list" where
  "py_slice_from xs i =
     (if i < 0 then drop (nat (int (length xs) + i)) xs else drop (nat i) xs)"

text \<open>The test \<^verbatim>\<open>sub in s\<close> on strings.\<close>

fun str_contains :: "string \<Rightarrow> string \<Rightarrow> bool" where
  "str_contains [] sub = (sub = [])"
| "str_contains (c # cs) sub = (startswith (c # cs) sub \<or> str_contains cs sub)"

section \<open>The historical rolling average\<close>

text \<open>
  Lines 230-238 of \<^verbatim>\<open>calculate_historical_average\<close>: the chain of \<^verbatim>\<open>if\<close>/\<^verbatim>\<open>elif\<close> that
  binds \<^verbatim>\<open>value_col\<close>. It has no \<^verbatim>\<open>else\<close>: for any other metric the name stays unbound.
\<close>

definition value_col_of :: "string \<Rightarrow> string \<Rightarrow> string option" where
  "value_col_of metric_type temporal =
     (if metric_type = ''generation'' then
        (if temporal = ''hourly'' then Some ''generation_mw''
         else Some (temporal @ ''_generation_mwh''))
      else if metric_type \<in> set [''price_da'', ''price_rt''] then
        (if temporal \<in> set [''daily'', ''monthly''] then Some ''weighted_price''
         else Some metric_type)
      else if metric_type \<in> set [''revenue_da'', ''revenue_rt''] then Some metric_type
      else None)"

text \<open>Lines 246-250: the distinct years in ascending order and the tail that is kept.\<close>

definition distinct_years :: "hist_row list \<Rightarrow> int list" where
  "distinct_years rs = sort (remdups (map (\<lambda>r. cal r ''year'') rs))"

definition last_years :: "int list \<Rightarrow> int \<Rightarrow> int list" where
  "last_years years num_years =
     (if int (length years) < num_years then years else py_slice_from years (- num_years))"

text \<open>Line 253: the rows of the kept years.\<close>

definition df_recent :: "hist_row list \<Rightarrow> int \<Rightarrow> hist_row list" where
  "df_recent rs num_years =
     filter (\<lambda>r. cal r ''year'' \<in> set (last_years (distinct_years rs) num_years)) rs"

text \<open>
  The body of the \<^verbatim>\<open>try\<close> block after the file is read, lines 229-276. \<open>Inl\<close> is an
  exception raised inside the block, \<open>Inr None\<close> the \<^verbatim>\<open>return None\<close> of line 243 and the
  end of the block reached without a \<^verbatim>\<open>return\<close> (a resolution that is not one of the
  three).
\<close>

definition historical_average_of ::
  "hist_row dataframe \<Rightarrow> string \<Rightarrow> string \<Rightarrow> int \<Rightarrow> py_error + (int list \<times> real option) dataframe option" where
  "historical_average_of df metric_type temporal num_years =
     (case value_col_of metric_type temporal of
        None \<Rightarrow> Inl (UnboundLocalError ''value_col'')
      | Some value_col \<Rightarrow>
          if value_col \<notin> set (columns df) then Inr None
          else if ''year'' \<notin> set (columns df) then Inl (KeyError ''year'')
          else
            let recent = df_recent (rows df) num_years in
            if temporal = ''monthly'' then
              map_sum id Some (groupby_mean_frame (columns df) [''month''] value_col recent)
            else if temporal = ''daily'' then
              map_sum id Some (groupby_mean_frame (columns df) [''month'', ''day''] value_col recent)
            else if temporal = ''hourly'' then
              (if metric_type = ''generation'' \<or> str_contains metric_type ''price'' then
                 map_sum id Some (groupby_mean_frame (columns df) [''hour''] value_col recent)
               else
                 map_sum id Some (groupby_mean_frame (columns df) [''month'', ''day'', ''hour''] value_col recent))
            else Inr None)"

text \<open>
  \<^verbatim>\<open>calculate_historical_average\<close>, lines 219-280. \<open>read_parquet\<close> gives the table stored in
  a file, or the exception raised while reading it. Every exception of the \<^verbatim>\<open>try\<close> block
  is caught by \<^verbatim>\<open>except Exception\<close>, which prints it and returns \<^verbatim>\<open>None\<close>.
\<close>

definition calculate_historical_average ::
  "node \<Rightarrow> (path \<Rightarrow> py_error + hist_row dataframe) \<Rightarrow> dashboard \<Rightarrow> string \<Rightarrow> string \<Rightarrow> string \<Rightarrow> int
     \<Rightarrow> (int list \<times> real option) dataframe option" where
  "calculate_historical_average fs read_parquet self site_name metric_type temporal num_years =
     (case find_historical_file fs self site_name metric_type temporal of
        None \<Rightarrow> None
      | Some hist_file \<Rightarrow>
          (case read_parquet hist_file of
             Inl e \<Rightarrow> None
           | Inr df \<Rightarrow>
               (case historical_average_of df metric_type temporal num_years of
                  Inl e \<Rightarrow> None
                | Inr result \<Rightarrow> result)))"

section \<open>The annual-total distribution and the duration curve\<close>

text \<open>
  A timeseries table has one column for each historical year and each simulated path. A
  row gives the entry of every column. In a monthly timeseries file the columns are float
  columns and an entry is a real number or missing (\<open>None\<close>). Column names are ASCII
  strings, on which \<^verbatim>\<open>str.isdigit\<close> asks for a non-empty string of the digits 0 to 9 and
  \<^verbatim>\<open>int\<close> reads its decimal value.
\<close>

definition isdigit :: "string \<Rightarrow> bool" where
  "isdigit s = (s \<noteq> [] \<and> list_all (\<lambda>c. c \<in> set ''0123456789'') s)"

definition int_of_str :: "string \<Rightarrow> int" where
  "int_of_str s = foldl (\<lambda>n c. 10 * n + (int (of_char c) - 48)) 0 s"

text \<open>
  The two list comprehensions shared by \<^verbatim>\<open>create_annual_distribution\<close> (lines 1783-1785)
  and \<^verbatim>\<open>create_duration_curve\<close> (lines 1882-1884).
\<close>

definition year_cols :: "string list \<Rightarrow> string list" where
  "year_cols cols = filter (\<lambda>col. isdigit col \<and> 1980 \<le> int_of_str col \<and> int_of_str col \<le> 2024) cols"

definition path_cols :: "string list \<Rightarrow> string list" where
  "path_cols cols = filter (\<lambda>col. startswith col ''path_'') cols"

definition all_cols :: "string list \<Rightarrow> string list" where
  "all_cols cols = year_cols cols @ path_cols cols"

text \<open>\<^verbatim>\<open>df[col]\<close>, the entries of a column from the first row to the last.\<close>

definition column :: "(string \<Rightarrow> 'e) dataframe \<Rightarrow> string \<Rightarrow> 'e list" where
  "column df col = map (\<lambda>r. r col) (rows df)"

text \<open>\<^verbatim>\<open>Series.notna().sum()\<close> and \<^verbatim>\<open>Series.sum()\<close>, which skips missing entries.\<close>

definition notna_sum :: "real option list \<Rightarrow> nat" where
  "notna_sum xs = length (filter (\<lambda>x. x \<noteq> None) xs)"

definition series_sum :: "real option list \<Rightarrow> real" where
  "series_sum xs = sum_list (dropna xs)"

text \<open>
  Lines 1787-1794 of \<^verbatim>\<open>create_annual_distribution\<close>: the loop that appends the total of
  each complete column, and the warning returned when the list stays empty.
\<close>

fun annual_values_loop :: "(string \<Rightarrow> real option) dataframe \<Rightarrow> string list \<Rightarrow> real list \<Rightarrow> real list" where
  "annual_values_loop df [] annual_values = annual_values"
| "annual_values_loop df (col # cols) annual_values =
     (if notna_sum (column df col) = 12
      then annual_values_loop df cols (annual_values @ [series_sum (column df col)])
      else annual_values_loop df cols annual_values)"

definition annual_values :: "(string \<Rightarrow> real option) dataframe \<Rightarrow> string + real list" where
  "annual_values df =
     (let vals = annual_values_loop df (all_cols (columns df)) [] in
      if vals = [] then Inl ''Insufficient data for annual distribution'' else Inr vals)"

text \<open>
  In \<^verbatim>\<open>create_duration_curve\<close> every column goes through
  \<^verbatim>\<open>pd.to_numeric(..., errors='coerce')\<close> first, so any entry is accepted: a number, a
  missing entry, or an entry that does not convert to a number.
\<close>

datatype entry = Num real | NaN | Text string

fun to_numeric_coerce :: "entry \<Rightarrow> real option" where
  "to_numeric_coerce (Num v) = Some v"
| "to_numeric_coerce NaN = None"
| "to_numeric_coerce (Text s) = None"

text \<open>Lines 1886-1892: the values of all columns, pooled column after column.\<close>

fun all_values_loop :: "(string \<Rightarrow> entry) dataframe \<Rightarrow> string list \<Rightarrow> real list \<Rightarrow> real list" where
  "all_values_loop df [] all_values = all_values"
| "all_values_loop df (col # cols) all_values =
     all_values_loop df cols (all_values @ dropna (map to_numeric_coerce (column df col)))"

definition all_values :: "(string \<Rightarrow> entry) dataframe \<Rightarrow> real list" where
  "all_values df = all_values_loop df (all_cols (columns df)) []"

text \<open>
  \<^verbatim>\<open>np.linspace(start, stop, num)\<close>, \<^verbatim>\<open>np.mean\<close> and \<^verbatim>\<open>np.percentile\<close> with its default
  linear interpolation between the two closest ranks, over the reals.
\<close>

definition linspace :: "real \<Rightarrow> real \<Rightarrow> nat \<Rightarrow> real list" where
  "linspace start stop num =
     (if num = 1 then [start]
      else map (\<lambda>i. start + real i * ((stop - start) / real (num - 1))) [0..<num])"

definition np_mean :: "real list \<Rightarrow> real" where
  "np_mean xs = sum_list xs / real (length xs)"

definition np_percentile :: "real list \<Rightarrow> real \<Rightarrow> real" where
  "np_percentile xs q =
     (let s = sort xs;
          pos = q / 100 * real (length s - 1);
          lo = nat \<lfloor>pos\<rfloor>;
          hi = min (lo + 1) (length s - 1)
      in s ! lo + (pos - real lo) * (s ! hi - s ! lo))"

text \<open>
  Lines 1894-1906 of \<^verbatim>\<open>create_duration_curve\<close>: the warning on an empty pool, and the
  data of the curve and of its markers. The field \<open>p10_val\<close> is the one drawn with the
  label P10, \<open>p90_val\<close> the one drawn with the label P90.
\<close>

record duration_curve =
  sorted_values :: "real list"
  duration_pct :: "real list"
  mean_value :: real
  p10_val :: real
  p50_val :: real
  p90_val :: real

definition duration_curve_of :: "real list \<Rightarrow> string + duration_curve" where
  "duration_curve_of vals =
     (if vals = [] then Inl ''Insufficient data for duration curve''
      else Inr \<lparr> sorted_values = rev (sort vals),
                 duration_pct = linspace 0 100 (length (rev (sort vals))),
                 mean_value = np_mean vals,
                 p10_val = np_percentile vals 90,
                 p50_val = np_percentile vals 50,
                 p90_val = np_percentile vals 10 \<rparr>)"

definition create_duration_curve :: "(string \<Rightarrow> entry) dataframe \<Rightarrow> string + duration_curve" where
  "create_duration_curve df = duration_curve_of (all_values df)"

section \<open>Covariate scatter sampling\<close>

text \<open>
  \<^verbatim>\<open>create_ghi_vs_generation_hour\<close> (lines 1956-2040) and \<^verbatim>\<open>create_ghi_vs_generation_temp\<close>
  (lines 2042 onwards) differ in the number of complete years they keep, 10 and 5, and in
  the column that colours the points, \<^verbatim>\<open>hour\<close> and \<^verbatim>\<open>temperature_2m\<close>. Both are modelled from
  the table that \<^verbatim>\<open>pd.read_parquet\<close> returned up to the rows that are plotted.

  Two library calls are parameters. \<open>to_datetime_ok\<close> tells whether \<^verbatim>\<open>pd.to_datetime\<close>
  accepts the date columns of the table (it raises \<^verbatim>\<open>ValueError\<close> otherwise).
  \<open>sample g n random_state rs\<close> is \<^verbatim>\<open>DataFrame.sample(n=n, random_state=random_state)\<close> on
  the rows \<open>rs\<close>, where \<open>g\<close> is the state of the global random generator of the process,
  which pandas draws from when \<open>random_state\<close> is \<open>None\<close>.
\<close>

datatype 'a component = Alert_warning string | Alert_danger py_error | Graph 'a

text \<open>The comparison \<^verbatim>\<open>series > c\<close> on a float entry: false on a missing entry.\<close>

definition gt :: "real option \<Rightarrow> real \<Rightarrow> bool" where
  "gt x c = (case x of None \<Rightarrow> False | Some v \<Rightarrow> c < v)"

text \<open>
  \<^verbatim>\<open>year_counts[year_counts >= 8760].index.tolist()\<close>, on the sizes of the groups of
  \<^verbatim>\<open>df.groupby('year')\<close>, which come in ascending order of the year.
\<close>

definition complete_years :: "hist_row list \<Rightarrow> int list" where
  "complete_years rs =
     filter (\<lambda>y. 8760 \<le> length (filter (\<lambda>r. cal r ''year'' = y) rs)) (distinct_years rs)"

definition years_to_use :: "nat \<Rightarrow> hist_row list \<Rightarrow> int list" where
  "years_to_use n_years rs = py_slice_from (sort (complete_years rs)) (- int n_years)"

definition df_years :: "nat \<Rightarrow> hist_row list \<Rightarrow> hist_row list" where
  "df_years n_years rs = filter (\<lambda>r. cal r ''year'' \<in> set (years_to_use n_years rs)) rs"

definition df_filtered :: "nat \<Rightarrow> hist_row list \<Rightarrow> hist_row list" where
  "df_filtered n_years rs =
     filter (\<lambda>r. gt (val r ''generation_mw'') 0.1 \<and> gt (val r ''shortwave_radiation'') 0)
       (df_years n_years rs)"

text \<open>
  The body of the \<^verbatim>\<open>try\<close> block after the file is read. \<open>Inl\<close> is an exception raised in
  the block: a column that is read but is not in the table, or dates that
  \<^verbatim>\<open>pd.to_datetime\<close> rejects.
\<close>

definition missing_column :: "string list \<Rightarrow> string list \<Rightarrow> string option" where
  "missing_column cols needed =
     (case filter (\<lambda>c. c \<notin> set cols) needed of [] \<Rightarrow> None | c # cs \<Rightarrow> Some c)"

definition ghi_vs_generation_try ::
  "('g \<Rightarrow> nat \<Rightarrow> nat option \<Rightarrow> hist_row list \<Rightarrow> hist_row list) \<Rightarrow> 'g \<Rightarrow> (hist_row dataframe \<Rightarrow> bool)
     \<Rightarrow> nat \<Rightarrow> string \<Rightarrow> hist_row dataframe \<Rightarrow> py_error + hist_row list component" where
  "ghi_vs_generation_try sample g to_datetime_ok n_years colour df =
     (case (if ''datetime'' \<in> set (columns df) then None
            else missing_column (columns df) [''year'', ''month'', ''day'', ''hour'']) of
        Some c \<Rightarrow> Inl (KeyError c)
      | None \<Rightarrow>
          if \<not> to_datetime_ok df then Inl ValueError
          else if ''year'' \<notin> set (columns df) then Inl (KeyError ''year'')
          else if complete_years (rows df) = [] then
            Inr (Alert_warning ''No complete years of data available'')
          else
            (case missing_column (columns df) [''generation_mw'', ''shortwave_radiation''] of
               Some c \<Rightarrow> Inl (KeyError c)
             | None \<Rightarrow>
                 let filtered = df_filtered n_years (rows df) in
                 if length filtered < 100 then Inr (Alert_warning ''Insufficient data for analysis'')
                 else
                   let plotted = (if length filtered > 10000 then sample g 10000 (Some 42) filtered
                                  else filtered) in
                   if colour \<notin> set (columns df) then Inl (KeyError colour)
                   else Inr (Graph plotted)))"

text \<open>The two functions: \<^verbatim>\<open>except Exception\<close> turns an exception into a danger alert.\<close>

definition create_ghi_vs_generation_hour ::
  "('g \<Rightarrow> nat \<Rightarrow> nat option \<Rightarrow> hist_row list \<Rightarrow> hist_row list) \<Rightarrow> 'g \<Rightarrow> (hist_row dataframe \<Rightarrow> bool)
     \<Rightarrow> hist_row dataframe \<Rightarrow> hist_row list component" where
  "create_ghi_vs_generation_hour sample g to_datetime_ok df =
     (case ghi_vs_generation_try sample g to_datetime_ok 10 ''hour'' df of
        Inl e \<Rightarrow> Alert_danger e | Inr c \<Rightarrow> c)"

definition create_ghi_vs_generation_temp ::
  "('g \<Rightarrow> nat \<Rightarrow> nat option \<Rightarrow> hist_row list \<Rightarrow> hist_row list) \<Rightarrow> 'g \<Rightarrow> (hist_row dataframe \<Rightarrow> bool)
     \<Rightarrow> hist_row dataframe \<Rightarrow> hist_row list component" where
  "create_ghi_vs_generation_temp sample g to_datetime_ok df =
     (case ghi_vs_generation_try sample g to_datetime_ok 5 ''temperature_2m'' df of
        Inl e \<Rightarrow> Alert_danger e | Inr c \<Rightarrow> c)"

section \<open>Two rules as the specification words them\<close>

text \<open>
  The rule for an explicit root as the specification words it: the override is used as
  it is unless it contains one of the two named subfolders, and then the subfolder is
  used, the parquet one first.
\<close>

definition root_override_spec :: "node \<Rightarrow> path \<Rightarrow> path" where
  "root_override_spec fs b =
     (if path_exists fs (b @ [PARQUET_ROOT]) then b @ [PARQUET_ROOT]
      else if path_exists fs (b @ [LLC_ROOT]) then b @ [LLC_ROOT]
      else b)"

text \<open>
  The selection of years as the specification words it: the last
  \<open>min(numYears, availableYears)\<close> of the distinct years in ascending order.
\<close>

definition spec_last_years :: "int list \<Rightarrow> int \<Rightarrow> int list" where
  "spec_last_years years numYears =
     drop (length years - min (nat numYears) (length years)) years"

section \<open>Example inputs\<close>

text \<open>
  A small disk: one site \<^verbatim>\<open>Alpha\<close> under \<^verbatim>\<open>data\<close>, which holds a folder for the token
  \<^verbatim>\<open>wind\<close> (not one of the five metrics) with a daily file of each category, and no
  \<^verbatim>\<open>Generation\<close> folder.
\<close>

definition fs_alpha :: node where
  "fs_alpha = Dir [(''data'', Dir [(''Alpha'', Dir [(''wind'', Dir
      [(''forecast'', Dir [(''distribution'', Dir [(''Alpha_wind_daily_distribution.parquet'', File)]),
                           (''timeseries'', Dir [(''Alpha_wind_daily_timeseries.parquet'', File)])]),
       (''historical'', Dir [(''Alpha_wind_daily_historical.parquet'', File)])])])])]"

definition dash_data :: dashboard where
  "dash_data = \<lparr> portfolio_path = [''data''], sites_cache = None \<rparr>"

text \<open>
  A portfolio root \<^verbatim>\<open>data\<close> with two sites, a regular file, a reserved directory and a
  directory without any metric folder.
\<close>

definition fs_portfolio :: node where
  "fs_portfolio = Dir [(''data'', Dir
      [(''Beta'', Dir [(''Price_da'', Dir [])]),
       (''notes.txt'', File),
       (''Alpha'', Dir [(''Generation'', Dir []), (''Revenue_rt'', Dir [])]),
       (''bootstrap_selections_2024'', Dir [(''Generation'', Dir [])]),
       (''Empty'', Dir [(''docs'', Dir [])])])]"

text \<open>A directory named \<^verbatim>\<open>Renewable Portfolio LLC\<close> that holds the parquet folder.\<close>

definition fs_nested :: node where
  "fs_nested = Dir [(''Renewable Portfolio LLC'', Dir [(''Renewable Portfolio LLC_parquet'', Dir [])])]"

text \<open>
  Example tables: a historical row from its calendar fields and its float entries, the
  two-row monthly table of the specification's example, and an hourly table that holds a
  revenue and a price column.
\<close>

definition hrow :: "int \<Rightarrow> int \<Rightarrow> int \<Rightarrow> int \<Rightarrow> (string \<times> real) list \<Rightarrow> hist_row" where
  "hrow y m d h vs =
     \<lparr> cal = (\<lambda>_. 0)(''year'' := y, ''month'' := m, ''day'' := d, ''hour'' := h),
       val = map_of vs \<rparr>"

definition df_two :: "hist_row dataframe" where
  "df_two = \<lparr> columns = [''year'', ''month'', ''monthly_generation_mwh''],
     rows = [hrow 2020 1 1 0 [(''monthly_generation_mwh'', 10)],
             hrow 2021 1 1 0 [(''monthly_generation_mwh'', 20)]] \<rparr>"

definition df_hourly :: "hist_row dataframe" where
  "df_hourly = \<lparr> columns = [''year'', ''month'', ''day'', ''hour'', ''revenue_da'', ''price_rt''],
     rows = [hrow 2020 1 1 0 [(''revenue_da'', 10), (''price_rt'', 2)],
             hrow 2021 1 1 0 [(''revenue_da'', 20), (''price_rt'', 4)],
             hrow 2021 1 2 0 [(''revenue_da'', 30), (''price_rt'', 6)]] \<rparr>"

text \<open>
  A disk with historical files of the site \<^verbatim>\<open>Alpha\<close>, and two readers: each gives the same
  table for every file.
\<close>

definition fs_gen :: node where
  "fs_gen = Dir [(''data'', Dir [(''Alpha'', Dir
      [(''Generation'', Dir [(''historical'', Dir [(''Alpha_generation_monthly_historical.parquet'', File)])]),
       (''Revenue_da'', Dir [(''historical'', Dir [(''Alpha_revenue_da_hourly_historical.parquet'', File)])]),
       (''Price_rt'', Dir [(''historical'', Dir [(''Alpha_price_rt_hourly_historical.parquet'', File)])])])])]"

definition read_two :: "path \<Rightarrow> py_error + hist_row dataframe" where
  "read_two p = Inr df_two"

definition read_hourly :: "path \<Rightarrow> py_error + hist_row dataframe" where
  "read_hourly p = Inr df_hourly"




text \<open>
  An hourly table whose pool is 10, 20, 30, 40, 50: the year column holds a text entry
  and the path column two missing entries.
\<close>

definition df_pool :: "(string \<Rightarrow> entry) dataframe" where
  "df_pool = \<lparr> columns = [''2020'', ''path_0''],
     rows = [(\<lambda>_. NaN)(''2020'' := Num 10, ''path_0'' := Num 40),
             (\<lambda>_. NaN)(''2020'' := Num 20),
             (\<lambda>_. NaN)(''2020'' := Text ''n/a'', ''path_0'' := Num 50),
             (\<lambda>_. NaN)(''2020'' := Num 30)] \<rparr>"

text \<open>
  An hourly table of 10001 equal rows of the year 2020 with generation 1, irradiance 500
  and temperature 20, and a sampler that keeps the first \<open>n\<close> rows whatever the seed and
  the state of the generator.
\<close>

definition sunny_row :: hist_row where
  "sunny_row = hrow 2020 6 1 12 [(''generation_mw'', 1), (''shortwave_radiation'', 500), (''temperature_2m'', 20)]"

definition df_sunny :: "hist_row dataframe" where
  "df_sunny = \<lparr> columns = [''year'', ''month'', ''day'', ''hour'', ''generation_mw'',
                            ''shortwave_radiation'', ''temperature_2m''],
                 rows = replicate 10001 sunny_row \<rparr>"

definition sample_head :: "nat \<Rightarrow> nat \<Rightarrow> nat option \<Rightarrow> hist_row list \<Rightarrow> hist_row list" where
  "sample_head g n random_state rs = take n rs"

section \<open>Properties of the path resolver\<close>

lemma fs_lookup_append:
  "fs_lookup n (p @ q) = (case fs_lookup n p of None \<Rightarrow> None | Some m \<Rightarrow> fs_lookup m q)"
  by (induction n p rule: fs_lookup.induct) (auto split: option.splits)

text \<open>Whatever exists has an existing parent: \<open>path_exists\<close> is closed under prefixes.\<close>

lemma path_exists_prefix: "path_exists fs (p @ q) \<Longrightarrow> path_exists fs p"
  by (simp add: path_exists_def fs_lookup_append split: option.splits)

lemma folder_map_get_unknown:
  "metric_type \<notin> set (map fst folder_map) \<Longrightarrow> folder_map_get metric_type = metric_type"
  by (simp add: folder_map_get_def map_of_eq_None_iff[THEN iffD2])

text \<open>
  Claim C1. Whenever the file named by the convention exists, each of the three resolvers
  returns exactly its path: the portfolio root, the site, the metric folder,
  \<^verbatim>\<open>forecast/distribution\<close>, \<^verbatim>\<open>forecast/timeseries\<close> or \<^verbatim>\<open>historical\<close>, and the file name
  \<^verbatim>\<open>{site}_{metric}_{temporal}_{category}.parquet\<close>. The metric folder comes from the table
  of five entries, and a token outside the table is its own folder name; the resolvers
  have no failing branch.
\<close>

theorem resolvers_return_conventional_path:
  "(path_exists fs (portfolio_path self @ [site, folder_map_get metric, ''forecast'', ''distribution'',
        site @ ''_'' @ metric @ ''_'' @ temporal @ ''_distribution.parquet''])
    \<longrightarrow> find_distribution_file fs self site metric temporal =
        Some (portfolio_path self @ [site, folder_map_get metric, ''forecast'', ''distribution'',
                site @ ''_'' @ metric @ ''_'' @ temporal @ ''_distribution.parquet'']))
   \<and> (path_exists fs (portfolio_path self @ [site, folder_map_get metric, ''forecast'', ''timeseries'',
        site @ ''_'' @ metric @ ''_'' @ temporal @ ''_timeseries.parquet''])
    \<longrightarrow> find_timeseries_file fs self site metric temporal =
        Some (portfolio_path self @ [site, folder_map_get metric, ''forecast'', ''timeseries'',
                site @ ''_'' @ metric @ ''_'' @ temporal @ ''_timeseries.parquet'']))
   \<and> (path_exists fs (portfolio_path self @ [site, folder_map_get metric, ''historical'',
        site @ ''_'' @ metric @ ''_'' @ temporal @ ''_historical.parquet''])
    \<longrightarrow> find_historical_file fs self site metric temporal =
        Some (portfolio_path self @ [site, folder_map_get metric, ''historical'',
                site @ ''_'' @ metric @ ''_'' @ temporal @ ''_historical.parquet'']))
   \<and> folder_map_get ''generation'' = ''Generation''
   \<and> folder_map_get ''price_da'' = ''Price_da''
   \<and> folder_map_get ''price_rt'' = ''Price_rt''
   \<and> folder_map_get ''revenue_da'' = ''Revenue_da''
   \<and> folder_map_get ''revenue_rt'' = ''Revenue_rt''
   \<and> (metric \<notin> {''generation'', ''price_da'', ''price_rt'', ''revenue_da'', ''revenue_rt''}
        \<longrightarrow> folder_map_get metric = metric)"
proof -
  let ?mf = "portfolio_path self @ [site, folder_map_get metric]"
  have dist: "find_distribution_file fs self site metric temporal = Some (?mf @ [''forecast'', ''distribution'', f])"
    if ex: "path_exists fs (?mf @ [''forecast'', ''distribution'', f])"
      and f: "f = site @ ''_'' @ metric @ ''_'' @ temporal @ ''_distribution.parquet''" for f
  proof -
    have "path_exists fs ?mf"
      using ex by (rule path_exists_prefix)
    moreover have "path_exists fs (?mf @ [''forecast'', ''distribution''])"
      using ex path_exists_prefix[of fs "?mf @ [''forecast'', ''distribution'']" "[f]"] by simp
    ultimately show ?thesis
      using ex by (simp add: find_distribution_file_def parquet_filename_def f)
  qed
  have ts: "find_timeseries_file fs self site metric temporal = Some (?mf @ [''forecast'', ''timeseries'', f])"
    if ex: "path_exists fs (?mf @ [''forecast'', ''timeseries'', f])"
      and f: "f = site @ ''_'' @ metric @ ''_'' @ temporal @ ''_timeseries.parquet''" for f
  proof -
    have "path_exists fs ?mf"
      using ex by (rule path_exists_prefix)
    moreover have "path_exists fs (?mf @ [''forecast'', ''timeseries''])"
      using ex path_exists_prefix[of fs "?mf @ [''forecast'', ''timeseries'']" "[f]"] by simp
    ultimately show ?thesis
      using ex by (simp add: find_timeseries_file_def parquet_filename_def f)
  qed
  have hist: "find_historical_file fs self site metric temporal = Some (?mf @ [''historical'', f])"
    if ex: "path_exists fs (?mf @ [''historical'', f])"
      and f: "f = site @ ''_'' @ metric @ ''_'' @ temporal @ ''_historical.parquet''" for f
  proof -
    have "path_exists fs (?mf @ [''historical''])"
      using ex path_exists_prefix[of fs "?mf @ [''historical'']" "[f]"] by simp
    then show ?thesis
      using ex by (simp add: find_historical_file_def parquet_filename_def f)
  qed
  have table: "folder_map_get ''generation'' = ''Generation''" "folder_map_get ''price_da'' = ''Price_da''"
    "folder_map_get ''price_rt'' = ''Price_rt''" "folder_map_get ''revenue_da'' = ''Revenue_da''"
    "folder_map_get ''revenue_rt'' = ''Revenue_rt''"
    by (simp_all add: folder_map_get_def folder_map_def)
  have other: "folder_map_get metric = metric"
    if "metric \<notin> {''generation'', ''price_da'', ''price_rt'', ''revenue_da'', ''revenue_rt''}"
    using that by (intro folder_map_get_unknown) (simp add: folder_map_def)
  show ?thesis
    using dist ts hist table other by simp
qed

text \<open>
  The theorem at the site \<^verbatim>\<open>Alpha\<close> with the unlisted token \<^verbatim>\<open>wind\<close>: the three files exist
  under the folder \<^verbatim>\<open>wind\<close> and each resolver returns its file.
\<close>

theorem resolvers_return_conventional_path_witness:
  "path_exists fs_alpha [''data'', ''Alpha'', ''wind'', ''forecast'', ''distribution'', ''Alpha_wind_daily_distribution.parquet'']
   \<and> path_exists fs_alpha [''data'', ''Alpha'', ''wind'', ''forecast'', ''timeseries'', ''Alpha_wind_daily_timeseries.parquet'']
   \<and> path_exists fs_alpha [''data'', ''Alpha'', ''wind'', ''historical'', ''Alpha_wind_daily_historical.parquet'']
   \<and> find_distribution_file fs_alpha dash_data ''Alpha'' ''wind'' ''daily''
     = Some [''data'', ''Alpha'', ''wind'', ''forecast'', ''distribution'', ''Alpha_wind_daily_distribution.parquet'']
   \<and> find_timeseries_file fs_alpha dash_data ''Alpha'' ''wind'' ''daily''
     = Some [''data'', ''Alpha'', ''wind'', ''forecast'', ''timeseries'', ''Alpha_wind_daily_timeseries.parquet'']
   \<and> find_historical_file fs_alpha dash_data ''Alpha'' ''wind'' ''daily''
     = Some [''data'', ''Alpha'', ''wind'', ''historical'', ''Alpha_wind_daily_historical.parquet'']
   \<and> folder_map_get ''wind'' = ''wind''"
proof -
  have w: "folder_map_get ''wind'' = ''wind''"
    by (simp add: folder_map_get_def folder_map_def)
  have e1: "path_exists fs_alpha [''data'', ''Alpha'', ''wind'', ''forecast'', ''distribution'', ''Alpha_wind_daily_distribution.parquet'']"
    by (simp add: path_exists_def fs_alpha_def)
  have e2: "path_exists fs_alpha [''data'', ''Alpha'', ''wind'', ''forecast'', ''timeseries'', ''Alpha_wind_daily_timeseries.parquet'']"
    by (simp add: path_exists_def fs_alpha_def)
  have e3: "path_exists fs_alpha [''data'', ''Alpha'', ''wind'', ''historical'', ''Alpha_wind_daily_historical.parquet'']"
    by (simp add: path_exists_def fs_alpha_def)
  show ?thesis
    using resolvers_return_conventional_path[of fs_alpha dash_data "''Alpha''" "''wind''" "''daily''"]
      e1 e2 e3 w by (simp add: dash_data_def)
qed

text \<open>
  Claim C2. \<^verbatim>\<open>find_distribution_file\<close> returns \<^verbatim>\<open>None\<close> whenever the file named by the
  convention is absent, and already when the metric folder or the directory
  \<^verbatim>\<open>forecast/distribution\<close> is absent; it is a total function with no failing branch.
\<close>

theorem find_distribution_file_missing:
  "(\<not> path_exists fs (portfolio_path self @ [site, folder_map_get metric])
      \<longrightarrow> find_distribution_file fs self site metric temporal = None)
   \<and> (\<not> path_exists fs (portfolio_path self @ [site, folder_map_get metric, ''forecast'', ''distribution''])
      \<longrightarrow> find_distribution_file fs self site metric temporal = None)
   \<and> (\<not> path_exists fs (portfolio_path self @ [site, folder_map_get metric, ''forecast'', ''distribution'',
          site @ ''_'' @ metric @ ''_'' @ temporal @ ''_distribution.parquet''])
      \<longrightarrow> find_distribution_file fs self site metric temporal = None)"
  by (simp add: find_distribution_file_def parquet_filename_def Let_def)

text \<open>
  The theorem at the metric \<^verbatim>\<open>generation\<close> of the site \<^verbatim>\<open>Alpha\<close>, which has no
  \<^verbatim>\<open>Generation\<close> folder at all.
\<close>

theorem find_distribution_file_missing_witness:
  "\<not> path_exists fs_alpha [''data'', ''Alpha'', ''Generation'']
   \<and> \<not> path_exists fs_alpha [''data'', ''Alpha'', ''Generation'', ''forecast'', ''distribution'']
   \<and> \<not> path_exists fs_alpha [''data'', ''Alpha'', ''Generation'', ''forecast'', ''distribution'',
          ''Alpha_generation_hourly_distribution.parquet'']
   \<and> find_distribution_file fs_alpha dash_data ''Alpha'' ''generation'' ''hourly'' = None"
proof -
  have g: "folder_map_get ''generation'' = ''Generation''"
    by (simp add: folder_map_get_def folder_map_def)
  have e1: "\<not> path_exists fs_alpha [''data'', ''Alpha'', ''Generation'']"
    by (simp add: path_exists_def fs_alpha_def)
  have e2: "\<not> path_exists fs_alpha [''data'', ''Alpha'', ''Generation'', ''forecast'', ''distribution'']"
    by (simp add: path_exists_def fs_alpha_def)
  have e3: "\<not> path_exists fs_alpha [''data'', ''Alpha'', ''Generation'', ''forecast'', ''distribution'',
          ''Alpha_generation_hourly_distribution.parquet'']"
    by (simp add: path_exists_def fs_alpha_def)
  show ?thesis
    using find_distribution_file_missing[of fs_alpha dash_data "''Alpha''" "''generation''" "''hourly''"]
      e1 e2 e3 g by (simp add: dash_data_def)
qed

section \<open>Properties of the site catalog and of the root discovery\<close>

lemma is_dir_child:
  assumes "fs_lookup fs p = Some (Dir es)" "is_dir fs (p @ [n])"
  shows "n \<in> fst ` set es"
proof -
  from assms have "map_of es n \<noteq> None"
    by (auto simp: is_dir_def fs_lookup_append split: option.splits)
  then show ?thesis
    by (simp add: map_of_eq_None_iff)
qed

text \<open>
  Claim C8. On a dashboard whose cache is still empty and whose portfolio root is a
  directory, \<^verbatim>\<open>get_all_sites\<close> returns a sorted list without duplicates that holds exactly
  the names \<open>n\<close> such that \<open>root/n\<close> is a directory, \<open>n\<close> does not start with
  \<^verbatim>\<open>bootstrap_selections\<close>, and one of the five metric folders exists under \<open>root/n\<close>
  (the test of the code is \<^verbatim>\<open>exists()\<close>). When nothing qualifies the list is empty, not an
  error. The list is stored, and the next call returns the same list.
\<close>

theorem get_all_sites_lists_sites:
  assumes "sites_cache self = None" and "is_dir fs (portfolio_path self)"
  shows "\<exists>sites. get_all_sites fs self = Inr (sites, self\<lparr> sites_cache := Some sites \<rparr>)
           \<and> sorted sites \<and> distinct sites
           \<and> set sites = {n. is_dir fs (portfolio_path self @ [n])
                            \<and> \<not> startswith n ''bootstrap_selections''
                            \<and> (\<exists>m \<in> set METRIC_FOLDERS. path_exists fs (portfolio_path self @ [n, m]))}
           \<and> ((\<forall>n. \<not> is_site fs (portfolio_path self) n) \<longrightarrow> sites = [])
           \<and> get_all_sites fs (self\<lparr> sites_cache := Some sites \<rparr>)
               = Inr (sites, self\<lparr> sites_cache := Some sites \<rparr>)"
proof -
  from assms(2) obtain es where es: "fs_lookup fs (portfolio_path self) = Some (Dir es)"
    by (auto simp: is_dir_def split: option.splits node.splits)
  define sites where "sites = sort (filter (is_site fs (portfolio_path self)) (remdups (map fst es)))"
  have run: "get_all_sites fs self = Inr (sites, self\<lparr> sites_cache := Some sites \<rparr>)"
    using assms(1) es by (simp add: get_all_sites_def iterdir_def sites_def Let_def)
  have site_iff: "is_site fs (portfolio_path self) n \<longleftrightarrow>
      (is_dir fs (portfolio_path self @ [n]) \<and> \<not> startswith n ''bootstrap_selections''
       \<and> (\<exists>m \<in> set METRIC_FOLDERS. path_exists fs (portfolio_path self @ [n, m])))" for n
    by (simp add: is_site_def METRIC_FOLDERS_def)
  have "set sites = {n. is_site fs (portfolio_path self) n}"
    using is_dir_child[OF es] by (auto simp: sites_def is_site_def)
  then have set_eq: "set sites = {n. is_dir fs (portfolio_path self @ [n])
                            \<and> \<not> startswith n ''bootstrap_selections''
                            \<and> (\<exists>m \<in> set METRIC_FOLDERS. path_exists fs (portfolio_path self @ [n, m]))}"
    by (simp only: site_iff)
  have empty: "sites = []" if "\<forall>n. \<not> is_site fs (portfolio_path self) n"
    using that by (simp add: sites_def)
  have again: "get_all_sites fs (self\<lparr> sites_cache := Some sites \<rparr>) = Inr (sites, self\<lparr> sites_cache := Some sites \<rparr>)"
    by (simp add: get_all_sites_def)
  have "sorted sites" "distinct sites"
    by (simp_all add: sites_def)
  with run set_eq empty again show ?thesis
    by blast
qed

text \<open>
  The theorem on the root \<^verbatim>\<open>data\<close> of the example portfolio: of its five entries only
  \<^verbatim>\<open>Alpha\<close> and \<^verbatim>\<open>Beta\<close> are sites, and they come out in order although the directory lists
  \<^verbatim>\<open>Beta\<close> first.
\<close>

theorem get_all_sites_lists_sites_witness:
  "sites_cache dash_data = None \<and> is_dir fs_portfolio (portfolio_path dash_data)
   \<and> get_all_sites fs_portfolio dash_data
       = Inr ([''Alpha'', ''Beta''], dash_data\<lparr> sites_cache := Some [''Alpha'', ''Beta''] \<rparr>)
   \<and> sorted [''Alpha'', ''Beta''] \<and> distinct [''Alpha'', ''Beta'']"
proof -
  have c: "sites_cache dash_data = None"
    by (simp add: dash_data_def)
  have d: "is_dir fs_portfolio (portfolio_path dash_data)"
    by (simp add: dash_data_def is_dir_def fs_portfolio_def)
  have run: "get_all_sites fs_portfolio dash_data
       = Inr ([''Alpha'', ''Beta''], dash_data\<lparr> sites_cache := Some [''Alpha'', ''Beta''] \<rparr>)"
    by (simp add: get_all_sites_def dash_data_def iterdir_def fs_portfolio_def is_site_def
        is_dir_def path_exists_def startswith_def Let_def)
  from get_all_sites_lists_sites[OF c d] obtain sites where
    s: "get_all_sites fs_portfolio dash_data = Inr (sites, dash_data\<lparr> sites_cache := Some sites \<rparr>)"
    and o: "sorted sites" "distinct sites"
    by blast
  from s run have "sites = [''Alpha'', ''Beta'']"
    by simp
  with o c d run show ?thesis
    by simp
qed

text \<open>
  Claim C9, as the code has it. Without an override the root is the first that exists of
  \<^verbatim>\<open>cwd/Renewable Portfolio LLC_parquet\<close>, \<^verbatim>\<open>cwd/Renewable Portfolio LLC\<close> and the working
  directory. An override whose own last component is one of the two names is used as it
  is, whatever it contains; any other override is replaced by its parquet subfolder when
  that exists, else by its \<^verbatim>\<open>Renewable Portfolio LLC\<close> subfolder when that exists, and is
  used as it is otherwise.
\<close>

theorem init_portfolio_root:
  "portfolio_path (init fs cwd None) =
     (if path_exists fs (cwd @ [PARQUET_ROOT]) then cwd @ [PARQUET_ROOT]
      else if path_exists fs (cwd @ [LLC_ROOT]) then cwd @ [LLC_ROOT]
      else cwd)
   \<and> portfolio_path (init fs cwd (Some b)) =
     (if path_name b = LLC_ROOT \<or> path_name b = PARQUET_ROOT then b
      else if path_exists fs (b @ [PARQUET_ROOT]) then b @ [PARQUET_ROOT]
      else if path_exists fs (b @ [LLC_ROOT]) then b @ [LLC_ROOT]
      else b)"
  by (simp add: init_def init_base_def path_name_def Let_def)

text \<open>
  The theorem at the example portfolio: started in the top directory the dashboard takes
  \<^verbatim>\<open>data\<close> given as override as it is (it holds neither named folder), and started without
  override above \<^verbatim>\<open>Renewable Portfolio LLC\<close> it takes that folder.
\<close>

theorem init_portfolio_root_witness:
  "portfolio_path (init fs_nested [] None) = [''Renewable Portfolio LLC'']
   \<and> portfolio_path (init fs_portfolio [] (Some [''data''])) = [''data'']"
proof -
  have "portfolio_path (init fs_nested [] None) = [''Renewable Portfolio LLC'']"
    using init_portfolio_root[of fs_nested "[]" "[]"]
    by (simp add: fs_nested_def path_exists_def PARQUET_ROOT_def LLC_ROOT_def)
  moreover have "portfolio_path (init fs_portfolio [] (Some [''data''])) = [''data'']"
    using init_portfolio_root[of fs_portfolio "[]" "[''data'']"]
    by (simp add: fs_portfolio_def path_exists_def path_name_def PARQUET_ROOT_def LLC_ROOT_def)
  ultimately show ?thesis
    by simp
qed

text \<open>
  The claim as the specification states it fails for an override that is itself named
  \<^verbatim>\<open>Renewable Portfolio LLC\<close> and holds the parquet folder: the specification's rule takes
  the subfolder, the code keeps the override.
\<close>

theorem init_override_counterexample:
  "portfolio_path (init fs_nested [] (Some [''Renewable Portfolio LLC''])) = [''Renewable Portfolio LLC'']
   \<and> root_override_spec fs_nested [''Renewable Portfolio LLC'']
       = [''Renewable Portfolio LLC'', ''Renewable Portfolio LLC_parquet'']
   \<and> portfolio_path (init fs_nested [] (Some [''Renewable Portfolio LLC'']))
       \<noteq> root_override_spec fs_nested [''Renewable Portfolio LLC'']"
  by (simp add: init_def init_base_def path_name_def root_override_spec_def fs_nested_def
      path_exists_def PARQUET_ROOT_def LLC_ROOT_def)

section \<open>Properties of the historical rolling average\<close>

lemma groupby_mean_keys:
  "map fst (groupby_mean keys value_col rs) = sort (remdups (map (row_key keys) rs))"
  by (simp add: groupby_mean_def group_mean_def comp_def)

lemma groupby_mean_row:
  "(k, a) \<in> set (groupby_mean keys value_col rs) \<Longrightarrow> a = series_mean (group_values keys value_col rs k)"
  by (auto simp: groupby_mean_def group_mean_def)

lemma series_mean_present:
  "vs \<noteq> [] \<Longrightarrow> series_mean (map Some vs) = Some (sum_list vs / real (length vs))"
proof -
  have "dropna (map Some vs) = vs"
    by (induction vs) (simp_all add: dropna_def)
  then show "vs \<noteq> [] \<Longrightarrow> ?thesis"
    by (simp add: series_mean_def)
qed

text \<open>From one year upwards the tail kept by the code is the one the specification names.\<close>

lemma last_years_spec:
  "1 \<le> num_years \<Longrightarrow> last_years years num_years = spec_last_years years num_years"
  by (auto simp: last_years_def spec_last_years_def py_slice_from_def min_def nat_diff_distrib'
      intro: arg_cong2[where f = drop])

lemma value_col_of_known:
  "value_col_of metric_type temporal \<noteq> None \<longleftrightarrow>
     metric_type \<in> {''generation'', ''price_da'', ''price_rt'', ''revenue_da'', ''revenue_rt''}"
  by (simp add: value_col_of_def)

lemma historical_average_run:
  assumes "find_historical_file fs self site metric temporal = Some p"
    and "read_parquet p = Inr df"
  shows "calculate_historical_average fs read_parquet self site metric temporal num_years =
           (case historical_average_of df metric temporal num_years of Inl e \<Rightarrow> None | Inr r \<Rightarrow> r)"
  using assms by (simp add: calculate_historical_average_def)

text \<open>
  Claim C3. The number of years requested is at least one: the two calls of the program,
  on lines 1569 and 1700, pass the default 10. On a historical table with the columns
  \<^verbatim>\<open>year\<close>, \<^verbatim>\<open>month\<close> and the value column of the metric, the monthly average returns a
  table with one row for each distinct month among the rows of the selected years, in
  ascending order of the month, and the \<^verbatim>\<open>historical_avg\<close> of a month is the arithmetic
  mean of the value column over the selected rows of that month (\<^verbatim>\<open>Series.mean\<close>, which
  takes the mean of the entries that are present). The selected years are the last
  \<open>min(numYears, number of distinct years)\<close> distinct years in ascending order, so fewer
  years than requested is no error.
\<close>

theorem monthly_historical_average:
  assumes found: "find_historical_file fs self site metric ''monthly'' = Some p"
    and read: "read_parquet p = Inr df"
    and col: "value_col_of metric ''monthly'' = Some vc"
    and cols: "{''year'', ''month'', vc} \<subseteq> set (columns df)"
    and n: "1 \<le> num_years"
  shows "\<exists>tbl. calculate_historical_average fs read_parquet self site metric ''monthly'' num_years
              = Some \<lparr> columns = [''month'', ''historical_avg''], rows = tbl \<rparr>
         \<and> sorted (map fst tbl) \<and> distinct (map fst tbl)
         \<and> set (map fst tbl) =
             (\<lambda>r. [cal r ''month'']) `
               {r \<in> set (rows df). cal r ''year'' \<in> set (spec_last_years
                   (sorted_list_of_set ((\<lambda>r. cal r ''year'') ` set (rows df))) num_years)}
         \<and> (\<forall>(k, a) \<in> set tbl.
               a = series_mean (map (\<lambda>r. val r vc)
                     (filter (\<lambda>r. [cal r ''month''] = k \<and> cal r ''year'' \<in> set (spec_last_years
                         (sorted_list_of_set ((\<lambda>r. cal r ''year'') ` set (rows df))) num_years))
                       (rows df))))
         \<and> (\<forall>(k, a) \<in> set tbl. \<forall>vs.
               map (\<lambda>r. val r vc)
                     (filter (\<lambda>r. [cal r ''month''] = k \<and> cal r ''year'' \<in> set (spec_last_years
                         (sorted_list_of_set ((\<lambda>r. cal r ''year'') ` set (rows df))) num_years))
                       (rows df)) = map Some vs
               \<longrightarrow> a = Some (sum_list vs / real (length vs)))"
proof -
  let ?ys = "sorted_list_of_set ((\<lambda>r. cal r ''year'') ` set (rows df))"
  let ?sel = "\<lambda>r. cal r ''year'' \<in> set (spec_last_years ?ys num_years)"
  let ?grp = "\<lambda>k. filter (\<lambda>r. [cal r ''month''] = k \<and> ?sel r) (rows df)"
  have ys: "distinct_years (rows df) = ?ys"
    unfolding distinct_years_def set_map[symmetric] sorted_list_of_set_sort_remdups ..
  have recent: "df_recent (rows df) num_years = filter ?sel (rows df)"
    by (simp add: df_recent_def ys last_years_spec[OF n])
  define tbl where "tbl = groupby_mean [''month''] vc (filter ?sel (rows df))"
  have body: "historical_average_of df metric ''monthly'' num_years
      = Inr (Some \<lparr> columns = [''month'', ''historical_avg''], rows = tbl \<rparr>)"
    using col cols by (simp add: historical_average_of_def recent groupby_mean_frame_def tbl_def)
  have run: "calculate_historical_average fs read_parquet self site metric ''monthly'' num_years
      = Some \<lparr> columns = [''month'', ''historical_avg''], rows = tbl \<rparr>"
    using historical_average_run[of fs self site metric "''monthly''" p read_parquet df num_years]
      found read body by simp
  have keys: "map fst tbl = sort (remdups (map (row_key [''month'']) (filter ?sel (rows df))))"
    by (simp add: tbl_def groupby_mean_keys)
  have k1: "sorted (map fst tbl)" and k2: "distinct (map fst tbl)"
    by (simp_all add: keys)
  have k3: "set (map fst tbl) = (\<lambda>r. [cal r ''month'']) ` {r \<in> set (rows df). ?sel r}"
    by (simp add: keys row_key_def)
  have vals: "a = series_mean (map (\<lambda>r. val r vc) (?grp k))" if "(k, a) \<in> set tbl" for k a
    using groupby_mean_row[OF that[unfolded tbl_def]]
    by (simp add: group_values_def row_key_def conj_commute)
  have plain: "a = Some (sum_list vs / real (length vs))"
    if ka: "(k, a) \<in> set tbl" and all: "map (\<lambda>r. val r vc) (?grp k) = map Some vs" for k a vs
  proof -
    from ka have "k \<in> set (map fst tbl)"
      using image_eqI[of k fst "(k, a)" "set tbl"] by simp
    then obtain r where r: "r \<in> set (rows df)" "?sel r" "k = [cal r ''month'']"
      unfolding k3 by blast
    then have "r \<in> set (?grp k)"
      by simp
    then have "?grp k \<noteq> []"
      by (rule_tac notI) simp
    then have "map (\<lambda>r. val r vc) (?grp k) \<noteq> []"
      by (simp only: map_is_Nil_conv not_False_eq_True)
    then have "vs \<noteq> []"
      unfolding all by (simp only: map_is_Nil_conv not_False_eq_True)
    then have "series_mean (map Some vs) = Some (sum_list vs / real (length vs))"
      by (rule series_mean_present)
    then show ?thesis
      using vals[OF ka] unfolding all by simp
  qed
  show ?thesis
  proof (intro exI[of _ tbl] conjI)
    show "\<forall>(k, a) \<in> set tbl. a = series_mean (map (\<lambda>r. val r vc) (?grp k))"
      using vals by blast
    show "\<forall>(k, a) \<in> set tbl. \<forall>vs. map (\<lambda>r. val r vc) (?grp k) = map Some vs
        \<longrightarrow> a = Some (sum_list vs / real (length vs))"
      using plain by blast
  qed (rule run k1 k2 k3)+
qed

lemmas historical_eval =
  historical_average_of_def value_col_of_def df_recent_def distinct_years_def last_years_def
  py_slice_from_def groupby_mean_frame_def groupby_mean_def hrow_def series_mean_def dropna_def
  row_key_def group_values_def group_mean_def Let_def

lemma find_historical_file_gen:
  "find_historical_file fs_gen dash_data ''Alpha'' ''generation'' ''monthly''
     = Some [''data'', ''Alpha'', ''Generation'', ''historical'', ''Alpha_generation_monthly_historical.parquet'']"
  by (simp add: find_historical_file_def dash_data_def fs_gen_def folder_map_get_def folder_map_def
      parquet_filename_def path_exists_def)

text \<open>
  The theorem at the example of the specification: the rows (2020, January, 10) and
  (2021, January, 20) with ten years requested give one row, January with 15.
\<close>

theorem monthly_historical_average_witness:
  "find_historical_file fs_gen dash_data ''Alpha'' ''generation'' ''monthly''
     = Some [''data'', ''Alpha'', ''Generation'', ''historical'', ''Alpha_generation_monthly_historical.parquet'']
   \<and> value_col_of ''generation'' ''monthly'' = Some ''monthly_generation_mwh''
   \<and> {''year'', ''month'', ''monthly_generation_mwh''} \<subseteq> set (columns df_two)
   \<and> calculate_historical_average fs_gen read_two dash_data ''Alpha'' ''generation'' ''monthly'' 10
       = Some \<lparr> columns = [''month'', ''historical_avg''], rows = [([1], Some 15)] \<rparr>"
proof -
  have col: "value_col_of ''generation'' ''monthly'' = Some ''monthly_generation_mwh''"
    by (simp add: value_col_of_def)
  have cols: "{''year'', ''month'', ''monthly_generation_mwh''} \<subseteq> set (columns df_two)"
    by (simp add: df_two_def)
  have read: "read_two [''data'', ''Alpha'', ''Generation'', ''historical'', ''Alpha_generation_monthly_historical.parquet''] = Inr df_two"
    by (simp add: read_two_def)
  have n: "(1::int) \<le> 10"
    by simp
  from monthly_historical_average[of fs_gen dash_data "''Alpha''" "''generation''"
      "[''data'', ''Alpha'', ''Generation'', ''historical'', ''Alpha_generation_monthly_historical.parquet'']"
      read_two df_two "''monthly_generation_mwh''" 10, OF find_historical_file_gen read col cols n]
  obtain tbl where
    run: "calculate_historical_average fs_gen read_two dash_data ''Alpha'' ''generation'' ''monthly'' 10
            = Some \<lparr> columns = [''month'', ''historical_avg''], rows = tbl \<rparr>"
    by blast
  have "historical_average_of df_two ''generation'' ''monthly'' 10
      = Inr (Some \<lparr> columns = [''month'', ''historical_avg''], rows = [([1], Some 15)] \<rparr>)"
    by (simp add: historical_eval df_two_def)
  then have "calculate_historical_average fs_gen read_two dash_data ''Alpha'' ''generation'' ''monthly'' 10
      = Some \<lparr> columns = [''month'', ''historical_avg''], rows = [([1], Some 15)] \<rparr>"
    by (simp add: calculate_historical_average_def find_historical_file_gen read_two_def)
  with run have "tbl = [([1], Some 15)]"
    by simp
  with run col cols find_historical_file_gen show ?thesis
    by simp
qed

text \<open>
  Below one year the slice of line 250 is not a tail of that length: \<^verbatim>\<open>years[-0:]\<close> is the
  whole list. No call of the program requests zero years.
\<close>

lemma last_years_zero: "last_years years 0 = years"
  by (simp add: last_years_def py_slice_from_def)

lemma str_contains_price:
  "str_contains ''price_da'' ''price''" "str_contains ''price_rt'' ''price''"
  "\<not> str_contains ''revenue_da'' ''price''" "\<not> str_contains ''revenue_rt'' ''price''"
  "\<not> str_contains ''generation'' ''price''"
  by (simp_all add: startswith_def)

lemma known_metric_cases:
  assumes "value_col_of metric temporal = Some vc"
  shows "metric = ''generation'' \<or> metric = ''price_da'' \<or> metric = ''price_rt''
    \<or> metric = ''revenue_da'' \<or> metric = ''revenue_rt''"
proof -
  from assms have "value_col_of metric temporal \<noteq> None"
    by simp
  then have "metric \<in> {''generation'', ''price_da'', ''price_rt'', ''revenue_da'', ''revenue_rt''}"
    by (simp only: value_col_of_known)
  then show ?thesis
    by (simp only: insert_iff empty_iff simp_thms)
qed

lemma hourly_keys:
  assumes "value_col_of metric ''hourly'' = Some vc"
  shows "(metric = ''generation'' \<or> str_contains metric ''price'')
           \<longleftrightarrow> (metric = ''generation'' \<or> metric = ''price_da'' \<or> metric = ''price_rt'')"
  using known_metric_cases[OF assms]
proof (elim disjE)
  assume "metric = ''generation''"
  then show ?thesis by (simp only: simp_thms)
next
  assume m: "metric = ''price_da''"
  show ?thesis unfolding m using str_contains_price(1) by (simp only: simp_thms)
next
  assume m: "metric = ''price_rt''"
  show ?thesis unfolding m using str_contains_price(2) by (simp only: simp_thms)
next
  assume m: "metric = ''revenue_da''"
  have "''revenue_da'' \<noteq> ''generation''" "''revenue_da'' \<noteq> ''price_da''" "''revenue_da'' \<noteq> ''price_rt''"
    by simp_all
  then show ?thesis unfolding m using str_contains_price(3) by (simp only: simp_thms)
next
  assume m: "metric = ''revenue_rt''"
  have "''revenue_rt'' \<noteq> ''generation''" "''revenue_rt'' \<noteq> ''price_da''" "''revenue_rt'' \<noteq> ''price_rt''"
    by simp_all
  then show ?thesis unfolding m using str_contains_price(4) by (simp only: simp_thms)
qed

text \<open>
  Claim C4. On a historical table with the calendar columns and the value column of the
  metric, the hourly average groups by the hour alone when the metric is
  \<^verbatim>\<open>generation\<close>, \<^verbatim>\<open>price_da\<close> or \<^verbatim>\<open>price_rt\<close>, and by month, day and hour for the other
  metrics that have a value column, which are \<^verbatim>\<open>revenue_da\<close> and \<^verbatim>\<open>revenue_rt\<close>. In both
  branches the table has one row for each distinct key among the rows of the kept years,
  in ascending order, with the mean of the value column over the rows of that key.
\<close>

theorem hourly_historical_average_grouping:
  assumes found: "find_historical_file fs self site metric ''hourly'' = Some p"
    and read: "read_parquet p = Inr df"
    and col: "value_col_of metric ''hourly'' = Some vc"
    and cols: "{''year'', ''month'', ''day'', ''hour'', vc} \<subseteq> set (columns df)"
  shows "\<exists>keys tbl.
           calculate_historical_average fs read_parquet self site metric ''hourly'' num_years
              = Some \<lparr> columns = keys @ [''historical_avg''], rows = tbl \<rparr>
         \<and> keys = (if (metric = ''generation'' \<or> metric = ''price_da'' \<or> metric = ''price_rt'') then [''hour'']
                    else [''month'', ''day'', ''hour''])
         \<and> ((metric = ''generation'' \<or> metric = ''price_da'' \<or> metric = ''price_rt'') \<or> (metric = ''revenue_da'' \<or> metric = ''revenue_rt''))
         \<and> sorted (map fst tbl) \<and> distinct (map fst tbl)
         \<and> set (map fst tbl) = (\<lambda>r. map (cal r) keys) ` set (df_recent (rows df) num_years)
         \<and> (\<forall>(k, a) \<in> set tbl.
               a = series_mean (map (\<lambda>r. val r vc)
                     (filter (\<lambda>r. map (cal r) keys = k) (df_recent (rows df) num_years))))"
proof -
  define keys where "keys = (if (metric = ''generation'' \<or> metric = ''price_da'' \<or> metric = ''price_rt'') then [''hour'']
                    else [''month'', ''day'', ''hour''])"
  define tbl where "tbl = groupby_mean keys vc (df_recent (rows df) num_years)"
  have in_cols: "filter (\<lambda>k. k \<notin> set (columns df)) keys = []"
    using cols by (simp add: keys_def)
  have frame: "groupby_mean_frame (columns df) keys vc (df_recent (rows df) num_years)
      = Inr \<lparr> columns = keys @ [''historical_avg''], rows = tbl \<rparr>"
    by (simp add: groupby_mean_frame_def in_cols tbl_def)
  have body: "historical_average_of df metric ''hourly'' num_years
      = Inr (Some \<lparr> columns = keys @ [''historical_avg''], rows = tbl \<rparr>)"
  proof (cases "(metric = ''generation'' \<or> metric = ''price_da'' \<or> metric = ''price_rt'')")
    case True
    then have k: "keys = [''hour'']"
      by (simp add: keys_def)
    from True have "metric = ''generation'' \<or> str_contains metric ''price''"
      using hourly_keys[OF col] by simp
    then show ?thesis
      using col cols frame[unfolded k] by (simp add: historical_average_of_def k)
  next
    case False
    then have k: "keys = [''month'', ''day'', ''hour'']"
      by (simp add: keys_def)
    from False have "\<not> (metric = ''generation'' \<or> str_contains metric ''price'')"
      using hourly_keys[OF col] by simp
    then show ?thesis
      using col cols frame[unfolded k] by (simp add: historical_average_of_def k)
  qed
  have run: "calculate_historical_average fs read_parquet self site metric ''hourly'' num_years
      = Some \<lparr> columns = keys @ [''historical_avg''], rows = tbl \<rparr>"
    using historical_average_run[of fs self site metric "''hourly''" p read_parquet df num_years]
      found read body by simp
  have which: "(metric = ''generation'' \<or> metric = ''price_da'' \<or> metric = ''price_rt'') \<or> (metric = ''revenue_da'' \<or> metric = ''revenue_rt'')"
    using known_metric_cases[OF col] by (simp only: disj_assoc)
  have fsts: "map fst tbl = sort (remdups (map (row_key keys) (df_recent (rows df) num_years)))"
    by (simp add: tbl_def groupby_mean_keys)
  have k1: "sorted (map fst tbl)" and k2: "distinct (map fst tbl)"
    by (simp_all add: fsts)
  have k3: "set (map fst tbl) = (\<lambda>r. map (cal r) keys) ` set (df_recent (rows df) num_years)"
    by (simp add: fsts row_key_def)
  have vals: "a = series_mean (map (\<lambda>r. val r vc)
      (filter (\<lambda>r. map (cal r) keys = k) (df_recent (rows df) num_years)))" if "(k, a) \<in> set tbl" for k a
    using groupby_mean_row[OF that[unfolded tbl_def]]
    by (simp add: group_values_def row_key_def)
  show ?thesis
  proof (intro exI[of _ keys] exI[of _ tbl] conjI)
    show "\<forall>(k, a) \<in> set tbl. a = series_mean (map (\<lambda>r. val r vc)
        (filter (\<lambda>r. map (cal r) keys = k) (df_recent (rows df) num_years)))"
      using vals by blast
    show "keys = (if (metric = ''generation'' \<or> metric = ''price_da'' \<or> metric = ''price_rt'') then [''hour'']
                    else [''month'', ''day'', ''hour''])"
      by (rule keys_def)
  qed (rule run which k1 k2 k3)+
qed

lemma find_historical_file_hourly:
  "find_historical_file fs_gen dash_data ''Alpha'' ''revenue_da'' ''hourly''
     = Some [''data'', ''Alpha'', ''Revenue_da'', ''historical'', ''Alpha_revenue_da_hourly_historical.parquet'']"
  "find_historical_file fs_gen dash_data ''Alpha'' ''price_rt'' ''hourly''
     = Some [''data'', ''Alpha'', ''Price_rt'', ''historical'', ''Alpha_price_rt_hourly_historical.parquet'']"
  by (simp_all add: find_historical_file_def dash_data_def fs_gen_def folder_map_get_def folder_map_def
      parquet_filename_def path_exists_def)

text \<open>
  The theorem on the hourly example table, whose three rows are at hour 0 of 1 January
  2020, 1 January 2021 and 2 January 2021: \<^verbatim>\<open>price_rt\<close> gets one row for the hour 0 with
  the mean 4 of the prices 2, 4 and 6, and \<^verbatim>\<open>revenue_da\<close> gets one row for each of the two
  days, 15 for 1 January and 30 for 2 January.
\<close>

theorem hourly_historical_average_grouping_witness:
  "value_col_of ''price_rt'' ''hourly'' = Some ''price_rt''
   \<and> value_col_of ''revenue_da'' ''hourly'' = Some ''revenue_da''
   \<and> {''year'', ''month'', ''day'', ''hour'', ''price_rt'', ''revenue_da''} \<subseteq> set (columns df_hourly)
   \<and> calculate_historical_average fs_gen read_hourly dash_data ''Alpha'' ''price_rt'' ''hourly'' 10
       = Some \<lparr> columns = [''hour'', ''historical_avg''], rows = [([0], Some 4)] \<rparr>
   \<and> calculate_historical_average fs_gen read_hourly dash_data ''Alpha'' ''revenue_da'' ''hourly'' 10
       = Some \<lparr> columns = [''month'', ''day'', ''hour'', ''historical_avg''],
                 rows = [([1, 1, 0], Some 15), ([1, 2, 0], Some 30)] \<rparr>"
proof -
  have colp: "value_col_of ''price_rt'' ''hourly'' = Some ''price_rt''"
    and colr: "value_col_of ''revenue_da'' ''hourly'' = Some ''revenue_da''"
    by (simp_all add: value_col_of_def)
  have colsp: "{''year'', ''month'', ''day'', ''hour'', ''price_rt''} \<subseteq> set (columns df_hourly)"
    and colsr: "{''year'', ''month'', ''day'', ''hour'', ''revenue_da''} \<subseteq> set (columns df_hourly)"
    by (simp_all add: df_hourly_def)
  have readp: "read_hourly [''data'', ''Alpha'', ''Price_rt'', ''historical'', ''Alpha_price_rt_hourly_historical.parquet''] = Inr df_hourly"
    and readr: "read_hourly [''data'', ''Alpha'', ''Revenue_da'', ''historical'', ''Alpha_revenue_da_hourly_historical.parquet''] = Inr df_hourly"
    by (simp_all add: read_hourly_def)
  from hourly_historical_average_grouping[of fs_gen dash_data "''Alpha''" "''price_rt''"
      "[''data'', ''Alpha'', ''Price_rt'', ''historical'', ''Alpha_price_rt_hourly_historical.parquet'']"
      read_hourly df_hourly "''price_rt''" 10, OF find_historical_file_hourly(2) readp colp colsp]
  obtain keysp tblp where
    runp: "calculate_historical_average fs_gen read_hourly dash_data ''Alpha'' ''price_rt'' ''hourly'' 10
            = Some \<lparr> columns = keysp @ [''historical_avg''], rows = tblp \<rparr>"
    and kp: "keysp = (if (''price_rt'' = ''generation'' \<or> ''price_rt'' = ''price_da'' \<or> ''price_rt'' = ''price_rt'')
                      then [''hour''] else [''month'', ''day'', ''hour''])"
    by blast
  from hourly_historical_average_grouping[of fs_gen dash_data "''Alpha''" "''revenue_da''"
      "[''data'', ''Alpha'', ''Revenue_da'', ''historical'', ''Alpha_revenue_da_hourly_historical.parquet'']"
      read_hourly df_hourly "''revenue_da''" 10, OF find_historical_file_hourly(1) readr colr colsr]
  obtain keysr tblr where
    runr: "calculate_historical_average fs_gen read_hourly dash_data ''Alpha'' ''revenue_da'' ''hourly'' 10
            = Some \<lparr> columns = keysr @ [''historical_avg''], rows = tblr \<rparr>"
    and kr: "keysr = (if (''revenue_da'' = ''generation'' \<or> ''revenue_da'' = ''price_da'' \<or> ''revenue_da'' = ''price_rt'')
                      then [''hour''] else [''month'', ''day'', ''hour''])"
    by blast
  have kp': "keysp = [''hour'']"
    using kp by simp
  have kr': "keysr = [''month'', ''day'', ''hour'']"
    using kr by simp
  have "historical_average_of df_hourly ''price_rt'' ''hourly'' 10
      = Inr (Some \<lparr> columns = [''hour'', ''historical_avg''], rows = [([0], Some 4)] \<rparr>)"
    by (simp add: historical_eval df_hourly_def startswith_def)
  then have "calculate_historical_average fs_gen read_hourly dash_data ''Alpha'' ''price_rt'' ''hourly'' 10
      = Some \<lparr> columns = [''hour'', ''historical_avg''], rows = [([0], Some 4)] \<rparr>"
    by (simp add: calculate_historical_average_def find_historical_file_hourly read_hourly_def)
  with runp have p: "tblp = [([0], Some 4)]"
    by (simp add: kp')
  have "historical_average_of df_hourly ''revenue_da'' ''hourly'' 10
      = Inr (Some \<lparr> columns = [''month'', ''day'', ''hour'', ''historical_avg''],
                 rows = [([1, 1, 0], Some 15), ([1, 2, 0], Some 30)] \<rparr>)"
    by (simp add: historical_eval df_hourly_def startswith_def)
  then have "calculate_historical_average fs_gen read_hourly dash_data ''Alpha'' ''revenue_da'' ''hourly'' 10
      = Some \<lparr> columns = [''month'', ''day'', ''hour'', ''historical_avg''],
                 rows = [([1, 1, 0], Some 15), ([1, 2, 0], Some 30)] \<rparr>"
    by (simp add: calculate_historical_average_def find_historical_file_hourly read_hourly_def)
  with runr have r: "tblr = [([1, 1, 0], Some 15), ([1, 2, 0], Some 30)]"
    by (simp add: kr')
  from runp runr p r colp colr kp' kr' show ?thesis
    by (simp add: df_hourly_def)
qed

text \<open>
  Claim C10. For a metric token outside the five recognised ones the function returns
  \<^verbatim>\<open>None\<close>, whatever the site, the resolution, the disk and the content of the files: when
  the resolver finds a file through the folder fallback and the file is read, the test on
  the unbound name \<^verbatim>\<open>value_col\<close> raises inside the \<^verbatim>\<open>try\<close> block and the handler returns
  \<^verbatim>\<open>None\<close>.
\<close>

theorem unknown_metric_no_average:
  assumes "metric \<notin> {''generation'', ''price_da'', ''price_rt'', ''revenue_da'', ''revenue_rt''}"
  shows "calculate_historical_average fs read_parquet self site metric temporal num_years = None"
proof -
  from assms have "\<not> value_col_of metric temporal \<noteq> None"
    by (simp only: value_col_of_known not_False_eq_True)
  then have "value_col_of metric temporal = None"
    by simp
  then have "historical_average_of df metric temporal num_years = Inl (UnboundLocalError ''value_col'')" for df
    by (simp add: historical_average_of_def)
  then show ?thesis
    by (simp add: calculate_historical_average_def split: option.splits sum.splits)
qed

text \<open>
  The theorem at the token \<^verbatim>\<open>wind\<close> of the site \<^verbatim>\<open>Alpha\<close>: the historical file exists under
  the folder \<^verbatim>\<open>wind\<close>, the resolver returns it, the reader returns a table, and the average
  is \<^verbatim>\<open>None\<close>.
\<close>

theorem unknown_metric_no_average_witness:
  "''wind'' \<notin> {''generation'', ''price_da'', ''price_rt'', ''revenue_da'', ''revenue_rt''}
   \<and> find_historical_file fs_alpha dash_data ''Alpha'' ''wind'' ''daily''
       = Some [''data'', ''Alpha'', ''wind'', ''historical'', ''Alpha_wind_daily_historical.parquet'']
   \<and> read_two [''data'', ''Alpha'', ''wind'', ''historical'', ''Alpha_wind_daily_historical.parquet''] = Inr df_two
   \<and> calculate_historical_average fs_alpha read_two dash_data ''Alpha'' ''wind'' ''daily'' 10 = None"
proof -
  have m: "''wind'' \<notin> {''generation'', ''price_da'', ''price_rt'', ''revenue_da'', ''revenue_rt''}"
    by simp
  have f: "find_historical_file fs_alpha dash_data ''Alpha'' ''wind'' ''daily''
       = Some [''data'', ''Alpha'', ''wind'', ''historical'', ''Alpha_wind_daily_historical.parquet'']"
    by (simp add: find_historical_file_def dash_data_def fs_alpha_def folder_map_get_def folder_map_def
        parquet_filename_def path_exists_def)
  have r: "read_two [''data'', ''Alpha'', ''wind'', ''historical'', ''Alpha_wind_daily_historical.parquet''] = Inr df_two"
    by (simp add: read_two_def)
  from unknown_metric_no_average[OF m, of fs_alpha read_two dash_data "''Alpha''" "''daily''" 10] m f r
  show ?thesis
    by simp
qed

section \<open>Properties of the annual-total sample\<close>







section \<open>Properties of the duration curve\<close>

lemma all_values_loop_eq:
  "all_values_loop df cols acc =
     acc @ concat (map (\<lambda>c. dropna (map to_numeric_coerce (column df c))) cols)"
  by (induction cols arbitrary: acc) simp_all

text \<open>An interpolated value lies between the two ranks it is taken from.\<close>

lemma interp_bounds:
  fixes s :: "real list"
  assumes "sorted s" "lo \<le> hi" "hi < length s" "0 \<le> g" "g \<le> 1"
  shows "s ! lo \<le> s ! lo + g * (s ! hi - s ! lo)"
    and "s ! lo + g * (s ! hi - s ! lo) \<le> s ! hi"
proof -
  have d: "0 \<le> s ! hi - s ! lo"
    using sorted_nth_mono[OF assms(1-3)] by simp
  then have "0 \<le> g * (s ! hi - s ! lo)"
    using assms(4) by simp
  then show "s ! lo \<le> s ! lo + g * (s ! hi - s ! lo)"
    by simp
  have "g * (s ! hi - s ! lo) \<le> 1 * (s ! hi - s ! lo)"
    using d assms(5) by (rule mult_right_mono[rotated])
  then show "s ! lo + g * (s ! hi - s ! lo) \<le> s ! hi"
    by simp
qed

text \<open>The percentile grows with its rank \<open>q\<close>.\<close>

lemma np_percentile_mono:
  assumes ne: "xs \<noteq> []" and q: "0 \<le> q1" "q1 \<le> q2" "q2 \<le> 100"
  shows "np_percentile xs q1 \<le> np_percentile xs q2"
proof -
  define s where "s = sort xs"
  define m where "m = length s - 1"
  define t1 where "t1 = q1 / 100 * real m"
  define t2 where "t2 = q2 / 100 * real m"
  define lo1 where "lo1 = nat \<lfloor>t1\<rfloor>"
  define lo2 where "lo2 = nat \<lfloor>t2\<rfloor>"
  define hi1 where "hi1 = min (lo1 + 1) m"
  define hi2 where "hi2 = min (lo2 + 1) m"
  have srt: "sorted s" and len: "length s = Suc m"
    using ne by (simp_all add: s_def m_def Suc_leI)
  have t: "0 \<le> t1" "t1 \<le> t2" "t2 \<le> real m"
  proof -
    show "0 \<le> t1"
      using q(1) by (simp add: t1_def)
    show "t1 \<le> t2"
      unfolding t1_def t2_def using q(2) by (intro mult_right_mono divide_right_mono) simp_all
    have "q2 / 100 * real m \<le> 1 * real m"
      using q(3) by (intro mult_right_mono) simp_all
    then show "t2 \<le> real m"
      by (simp add: t2_def)
  qed
  have f1: "real lo1 \<le> t1" "t1 < real lo1 + 1" and f2: "real lo2 \<le> t2" "t2 < real lo2 + 1"
    using t by (simp_all add: lo1_def lo2_def)
  have lo12: "lo1 \<le> lo2"
    using t by (simp add: lo1_def lo2_def nat_mono floor_mono)
  have lom: "lo2 \<le> m"
    using f2(1) t(3) by linarith
  have h1: "lo1 \<le> hi1" "hi1 < length s" and h2: "lo2 \<le> hi2" "hi2 < length s"
    using lo12 lom by (simp_all add: hi1_def hi2_def len)
  have g1: "0 \<le> t1 - real lo1" "t1 - real lo1 \<le> 1" and g2: "0 \<le> t2 - real lo2" "t2 - real lo2 \<le> 1"
    using f1 f2 by simp_all
  have p1: "np_percentile xs q1 = s ! lo1 + (t1 - real lo1) * (s ! hi1 - s ! lo1)"
    by (simp add: np_percentile_def Let_def s_def m_def t1_def lo1_def hi1_def)
  have p2: "np_percentile xs q2 = s ! lo2 + (t2 - real lo2) * (s ! hi2 - s ! lo2)"
    by (simp add: np_percentile_def Let_def s_def m_def t2_def lo2_def hi2_def)
  show ?thesis
  proof (cases "lo1 = lo2")
    case True
    then have hi: "hi1 = hi2"
      by (simp add: hi1_def hi2_def)
    have "0 \<le> s ! hi2 - s ! lo2"
      using sorted_nth_mono[OF srt h2] by simp
    then have "(t1 - real lo2) * (s ! hi2 - s ! lo2) \<le> (t2 - real lo2) * (s ! hi2 - s ! lo2)"
      using t(2) by (intro mult_right_mono) simp_all
    then show ?thesis
      unfolding p1 p2 True hi by simp
  next
    case False
    with lo12 have "lo1 + 1 \<le> lo2"
      by simp
    then have "hi1 \<le> lo2"
      by (simp add: hi1_def)
    then have mid: "s ! hi1 \<le> s ! lo2"
      using srt lom by (intro sorted_nth_mono) (simp_all add: len)
    have "np_percentile xs q1 \<le> s ! hi1"
      unfolding p1 by (rule interp_bounds(2)[OF srt h1 g1])
    also note mid
    also have "s ! lo2 \<le> np_percentile xs q2"
      unfolding p2 by (rule interp_bounds(1)[OF srt h2 g2])
    finally show ?thesis .
  qed
qed

lemma linspace_nth:
  assumes "i < n" "2 \<le> n"
  shows "linspace 0 100 n ! i = 100 * real i / real (n - 1)"
  using assms by (simp add: linspace_def)

text \<open>
  Claim C6. When the pool of the duration curve is not empty, the curve is the pool in
  descending order against \<open>linspace(0, 100, n)\<close>, the mean is the arithmetic mean of the
  pool, and the marker fields are inverted: the value drawn as P10 is the 90th percentile
  of the pool and the value drawn as P90 is its 10th percentile, so P90 \<open>\<le>\<close> P50 \<open>\<le>\<close> P10.
  The pool holds the numeric entries of the year columns and then of the path columns;
  missing entries and entries that do not convert to a number are dropped.
\<close>

theorem duration_curve_sorted_descending:
  assumes "all_values df \<noteq> []"
  shows "\<exists>d. create_duration_curve df = Inr d
         \<and> all_values df = concat (map (\<lambda>c. dropna (map to_numeric_coerce (column df c)))
                                 (year_cols (columns df) @ path_cols (columns df)))
         \<and> sorted_values d = rev (sort (all_values df))
         \<and> sorted (rev (sorted_values d))
         \<and> mset (sorted_values d) = mset (all_values df)
         \<and> duration_pct d = linspace 0 100 (length (all_values df))
         \<and> length (duration_pct d) = length (sorted_values d)
         \<and> (\<forall>i < length (all_values df). 2 \<le> length (all_values df) \<longrightarrow>
               duration_pct d ! i = 100 * real i / real (length (all_values df) - 1))
         \<and> mean_value d = sum_list (all_values df) / real (length (all_values df))
         \<and> p10_val d = np_percentile (all_values df) 90
         \<and> p50_val d = np_percentile (all_values df) 50
         \<and> p90_val d = np_percentile (all_values df) 10
         \<and> p90_val d \<le> p50_val d \<and> p50_val d \<le> p10_val d"
proof -
  let ?vs = "all_values df"
  define d where "d = \<lparr> sorted_values = rev (sort ?vs),
                 duration_pct = linspace 0 100 (length ?vs),
                 mean_value = np_mean ?vs,
                 p10_val = np_percentile ?vs 90,
                 p50_val = np_percentile ?vs 50,
                 p90_val = np_percentile ?vs 10 \<rparr>"
  have run: "create_duration_curve df = Inr d"
    using assms by (simp add: create_duration_curve_def duration_curve_of_def d_def)
  have pool: "?vs = concat (map (\<lambda>c. dropna (map to_numeric_coerce (column df c)))
                                 (year_cols (columns df) @ path_cols (columns df)))"
    by (simp add: all_values_def all_values_loop_eq all_cols_def)
  have len: "length (duration_pct d) = length (sorted_values d)"
    by (simp add: d_def linspace_def)
  have nth: "\<forall>i < length ?vs. 2 \<le> length ?vs \<longrightarrow>
               duration_pct d ! i = 100 * real i / real (length ?vs - 1)"
    using linspace_nth[of _ "length ?vs"] by (simp add: d_def)
  have lo: "p90_val d \<le> p50_val d"
    unfolding d_def using np_percentile_mono[OF assms, of 10 50] by simp
  have hi: "p50_val d \<le> p10_val d"
    unfolding d_def using np_percentile_mono[OF assms, of 50 90] by simp
  show ?thesis
  proof (intro exI[of _ d] conjI)
    show "create_duration_curve df = Inr d"
      by (rule run)
    show "?vs = concat (map (\<lambda>c. dropna (map to_numeric_coerce (column df c)))
                                 (year_cols (columns df) @ path_cols (columns df)))"
      by (rule pool)
    show "length (duration_pct d) = length (sorted_values d)"
      by (rule len)
    show "\<forall>i < length ?vs. 2 \<le> length ?vs \<longrightarrow>
               duration_pct d ! i = 100 * real i / real (length ?vs - 1)"
      by (rule nth)
    show "p90_val d \<le> p50_val d"
      by (rule lo)
    show "p50_val d \<le> p10_val d"
      by (rule hi)
  qed (simp_all add: d_def np_mean_def)
qed

text \<open>
  The theorem at the example of the specification: the pool 10, 20, 30, 40, 50 gives the
  curve 50, 40, 30, 20, 10 at the durations 0, 25, 50, 75, 100 and the mean 30; the value
  drawn as P10 is 46 and the value drawn as P90 is 14.
\<close>

theorem duration_curve_sorted_descending_witness:
  "all_values df_pool = [10, 20, 30, 40, 50]
   \<and> create_duration_curve df_pool = Inr \<lparr> sorted_values = [50, 40, 30, 20, 10],
        duration_pct = [0, 25, 50, 75, 100], mean_value = 30,
        p10_val = 46, p50_val = 30, p90_val = 14 \<rparr>"
proof -
  have pool: "all_values df_pool = [10, 20, 30, 40, 50]"
    by (simp add: all_values_def all_cols_def year_cols_def path_cols_def isdigit_def int_of_str_def
        startswith_def df_pool_def column_def dropna_def)
  then have ne: "all_values df_pool \<noteq> []"
    by simp
  from duration_curve_sorted_descending[OF ne] obtain d where
    run: "create_duration_curve df_pool = Inr d"
    and sv: "sorted_values d = rev (sort (all_values df_pool))"
    and dp: "duration_pct d = linspace 0 100 (length (all_values df_pool))"
    and mv: "mean_value d = sum_list (all_values df_pool) / real (length (all_values df_pool))"
    and p10: "p10_val d = np_percentile (all_values df_pool) 90"
    and p50: "p50_val d = np_percentile (all_values df_pool) 50"
    and p90: "p90_val d = np_percentile (all_values df_pool) 10"
    by blast
  have "sorted_values d = [50, 40, 30, 20, 10]"
    unfolding sv pool by simp
  moreover have "duration_pct d = [0, 25, 50, 75, 100]"
    unfolding dp pool by (simp add: linspace_def upt_rec_numeral)
  moreover have "mean_value d = 30"
    unfolding mv pool by simp
  moreover have "p10_val d = 46" "p50_val d = 30" "p90_val d = 14"
    unfolding p10 p50 p90 pool by (simp_all add: np_percentile_def Let_def)
  ultimately have "d = \<lparr> sorted_values = [50, 40, 30, 20, 10],
        duration_pct = [0, 25, 50, 75, 100], mean_value = 30,
        p10_val = 46, p50_val = 30, p90_val = 14 \<rparr>"
    by (cases d) simp
  with run pool show ?thesis
    by simp
qed

section \<open>Properties of the covariate scatter sampling\<close>

lemma plotted_length:
  assumes "\<forall>g n s rs. n \<le> length rs \<longrightarrow> length (sample g n (Some s) rs) = n"
  shows "length (if length filtered > 10000 then sample g 10000 (Some 42) filtered else filtered) \<le> 10000"
  using assms by simp

lemma ghi_vs_generation_try_bound:
  assumes "\<forall>g n s rs. n \<le> length rs \<longrightarrow> length (sample g n (Some s) rs) = n"
    and "ghi_vs_generation_try sample g ok n_years colour df = Inr (Graph plotted)"
  shows "length plotted \<le> 10000"
proof -
  from assms(2) have "plotted = (if length (df_filtered n_years (rows df)) > 10000
      then sample g 10000 (Some 42) (df_filtered n_years (rows df)) else df_filtered n_years (rows df))"
    by (simp add: ghi_vs_generation_try_def Let_def split: option.splits if_splits)
  then show ?thesis
    using plotted_length[OF assms(1), of "df_filtered n_years (rows df)" g] by simp
qed

lemma ghi_vs_generation_try_seeded:
  assumes "\<forall>g g' n s rs. sample g n (Some s) rs = sample g' n (Some s) rs"
  shows "ghi_vs_generation_try sample g ok n_years colour df
           = ghi_vs_generation_try sample g' ok n_years colour df"
proof -
  have "sample g 10000 (Some 42) rs = sample g' 10000 (Some 42) rs" for rs
    using assms by blast
  then have eq: "sample g 10000 (Some 42) = sample g' 10000 (Some 42)"
    by (rule ext)
  show ?thesis
    unfolding ghi_vs_generation_try_def eq ..
qed

lemma ghi_vs_generation_try_sampled:
  assumes "''datetime'' \<in> set (columns df) \<or> {''year'', ''month'', ''day'', ''hour''} \<subseteq> set (columns df)"
    and "ok df"
    and "{''year'', ''generation_mw'', ''shortwave_radiation'', colour} \<subseteq> set (columns df)"
    and "complete_years (rows df) \<noteq> []"
    and "length (df_filtered n_years (rows df)) > 10000"
  shows "ghi_vs_generation_try sample g ok n_years colour df
           = Inr (Graph (sample g 10000 (Some 42) (df_filtered n_years (rows df))))"
  using assms by (auto simp: ghi_vs_generation_try_def missing_column_def Let_def)

lemma remdups_replicate: "remdups (replicate n x) = (if n = 0 then [] else [x])"
  by (induction n) auto

text \<open>
  Claim C7, given two properties of \<^verbatim>\<open>DataFrame.sample\<close>: with \<open>n\<close> no larger than the
  number of rows it returns \<open>n\<close> rows, and with an integer \<^verbatim>\<open>random_state\<close> its result does not
  depend on the state of the global generator. Then both variants plot at most 10000
  rows, a filtered set of more than 10000 rows is replaced by the sample of exactly 10000
  rows drawn with the seed 42, and two runs on the same table give the same result,
  whatever the state of the generator in each run.
\<close>

theorem scatter_sampling_bounded_deterministic:
  assumes size: "\<forall>g n s rs. n \<le> length rs \<longrightarrow> length (sample g n (Some s) rs) = n"
    and seeded: "\<forall>g g' n s rs. sample g n (Some s) rs = sample g' n (Some s) rs"
  shows "(\<forall>rs. create_ghi_vs_generation_hour sample g ok df = Graph rs \<longrightarrow> length rs \<le> 10000)
       \<and> (\<forall>rs. create_ghi_vs_generation_temp sample g ok df = Graph rs \<longrightarrow> length rs \<le> 10000)
       \<and> create_ghi_vs_generation_hour sample g ok df = create_ghi_vs_generation_hour sample g' ok df
       \<and> create_ghi_vs_generation_temp sample g ok df = create_ghi_vs_generation_temp sample g' ok df
       \<and> (\<forall>rs. length (df_filtered 10 (rows df)) > 10000
             \<and> create_ghi_vs_generation_hour sample g ok df = Graph rs
             \<longrightarrow> rs = sample g 10000 (Some 42) (df_filtered 10 (rows df)) \<and> length rs = 10000)
       \<and> (\<forall>rs. length (df_filtered 5 (rows df)) > 10000
             \<and> create_ghi_vs_generation_temp sample g ok df = Graph rs
             \<longrightarrow> rs = sample g 10000 (Some 42) (df_filtered 5 (rows df)) \<and> length rs = 10000)"
proof -
  have graph: "ghi_vs_generation_try sample g ok n_years colour df = Inr (Graph rs)"
    if "(case ghi_vs_generation_try sample g ok n_years colour df of
           Inl e \<Rightarrow> Alert_danger e | Inr c \<Rightarrow> c) = Graph rs" for n_years colour rs
    using that by (simp split: sum.splits)
  have bound: "length rs \<le> 10000"
    if "(case ghi_vs_generation_try sample g ok n_years colour df of
           Inl e \<Rightarrow> Alert_danger e | Inr c \<Rightarrow> c) = Graph rs" for n_years colour rs
    using ghi_vs_generation_try_bound[OF size graph[OF that]] .
  have exact: "rs = sample g 10000 (Some 42) (df_filtered n_years (rows df)) \<and> length rs = 10000"
    if big: "length (df_filtered n_years (rows df)) > 10000"
      and run: "(case ghi_vs_generation_try sample g ok n_years colour df of
           Inl e \<Rightarrow> Alert_danger e | Inr c \<Rightarrow> c) = Graph rs" for n_years colour rs
  proof -
    from graph[OF run] big have "rs = sample g 10000 (Some 42) (df_filtered n_years (rows df))"
      by (simp add: ghi_vs_generation_try_def Let_def split: option.splits if_splits)
    moreover have "length (sample g 10000 (Some 42) (df_filtered n_years (rows df))) = 10000"
      using size big by simp
    ultimately show ?thesis
      by simp
  qed
  have same: "ghi_vs_generation_try sample g ok n_years colour df
      = ghi_vs_generation_try sample g' ok n_years colour df" for n_years colour
    by (rule ghi_vs_generation_try_seeded[OF seeded])
  show ?thesis
    unfolding create_ghi_vs_generation_hour_def create_ghi_vs_generation_temp_def
  proof (intro conjI)
    show "\<forall>rs. (case ghi_vs_generation_try sample g ok 10 ''hour'' df of
           Inl e \<Rightarrow> Alert_danger e | Inr c \<Rightarrow> c) = Graph rs \<longrightarrow> length rs \<le> 10000"
      using bound by blast
    show "\<forall>rs. (case ghi_vs_generation_try sample g ok 5 ''temperature_2m'' df of
           Inl e \<Rightarrow> Alert_danger e | Inr c \<Rightarrow> c) = Graph rs \<longrightarrow> length rs \<le> 10000"
      using bound by blast
    show "(case ghi_vs_generation_try sample g ok 10 ''hour'' df of
           Inl e \<Rightarrow> Alert_danger e | Inr c \<Rightarrow> c)
        = (case ghi_vs_generation_try sample g' ok 10 ''hour'' df of
           Inl e \<Rightarrow> Alert_danger e | Inr c \<Rightarrow> c)"
      by (simp only: same)
    show "(case ghi_vs_generation_try sample g ok 5 ''temperature_2m'' df of
           Inl e \<Rightarrow> Alert_danger e | Inr c \<Rightarrow> c)
        = (case ghi_vs_generation_try sample g' ok 5 ''temperature_2m'' df of
           Inl e \<Rightarrow> Alert_danger e | Inr c \<Rightarrow> c)"
      by (simp only: same)
    show "\<forall>rs. length (df_filtered 10 (rows df)) > 10000
             \<and> (case ghi_vs_generation_try sample g ok 10 ''hour'' df of
           Inl e \<Rightarrow> Alert_danger e | Inr c \<Rightarrow> c) = Graph rs
             \<longrightarrow> rs = sample g 10000 (Some 42) (df_filtered 10 (rows df)) \<and> length rs = 10000"
      using exact by blast
    show "\<forall>rs. length (df_filtered 5 (rows df)) > 10000
             \<and> (case ghi_vs_generation_try sample g ok 5 ''temperature_2m'' df of
           Inl e \<Rightarrow> Alert_danger e | Inr c \<Rightarrow> c) = Graph rs
             \<longrightarrow> rs = sample g 10000 (Some 42) (df_filtered 5 (rows df)) \<and> length rs = 10000"
      using exact by blast
  qed
qed

lemma df_sunny_filtered:
  "complete_years (rows df_sunny) = [2020]"
  "df_filtered n (rows df_sunny) = replicate 10001 sunny_row"
proof -
  have y: "cal sunny_row ''year'' = 2020"
    by (simp add: sunny_row_def hrow_def)
  have dy: "distinct_years (rows df_sunny) = [2020]"
    by (simp add: distinct_years_def df_sunny_def remdups_replicate y)
  show cy: "complete_years (rows df_sunny) = [2020]"
    by (simp add: complete_years_def dy) (simp add: df_sunny_def filter_replicate y)
  have g: "gt (val sunny_row ''generation_mw'') 0.1" "gt (val sunny_row ''shortwave_radiation'') 0"
    by (simp_all add: sunny_row_def hrow_def gt_def)
  have "years_to_use n (rows df_sunny) = [2020]"
    by (cases n) (simp_all add: years_to_use_def cy py_slice_from_def)
  then show "df_filtered n (rows df_sunny) = replicate 10001 sunny_row"
    by (simp add: df_filtered_def df_years_def df_sunny_def filter_replicate y g)
qed

text \<open>
  The theorem on the table of 10001 rows with the sampler that keeps the first rows: it
  has the two properties, the filtered set has 10001 rows, and both variants plot 10000
  rows, with the generator in state 0 as in state 1.
\<close>

theorem scatter_sampling_bounded_deterministic_witness:
  "(\<forall>g n s rs. length (sample_head g n (Some s) rs) = min n (length rs))
   \<and> (\<forall>g g' n s rs. sample_head g n (Some s) rs = sample_head g' n (Some s) rs)
   \<and> length (df_filtered 10 (rows df_sunny)) = 10001
   \<and> create_ghi_vs_generation_hour sample_head 0 (\<lambda>df. True) df_sunny = Graph (replicate 10000 sunny_row)
   \<and> create_ghi_vs_generation_hour sample_head 1 (\<lambda>df. True) df_sunny = Graph (replicate 10000 sunny_row)
   \<and> create_ghi_vs_generation_temp sample_head 0 (\<lambda>df. True) df_sunny = Graph (replicate 10000 sunny_row)
   \<and> create_ghi_vs_generation_temp sample_head 1 (\<lambda>df. True) df_sunny = Graph (replicate 10000 sunny_row)
   \<and> length (replicate 10000 sunny_row) \<le> 10000"
proof -
  have size: "\<forall>g n s rs. n \<le> length rs \<longrightarrow> length (sample_head g n (Some s) rs) = n"
    by (simp add: sample_head_def)
  have seeded: "\<forall>g g' n s rs. sample_head g n (Some s) rs = sample_head g' n (Some s) rs"
    by (simp add: sample_head_def)
  have len: "length (df_filtered 10 (rows df_sunny)) = 10001"
    by (simp add: df_sunny_filtered)
  have cols: "missing_column (columns df_sunny) [''year'', ''month'', ''day'', ''hour''] = None"
    "missing_column (columns df_sunny) [''generation_mw'', ''shortwave_radiation''] = None"
    "''datetime'' \<notin> set (columns df_sunny)" "''year'' \<in> set (columns df_sunny)"
    "''hour'' \<in> set (columns df_sunny)" "''temperature_2m'' \<in> set (columns df_sunny)"
    by (simp_all add: missing_column_def df_sunny_def)
  have h0: "create_ghi_vs_generation_hour sample_head 0 (\<lambda>df. True) df_sunny = Graph (replicate 10000 sunny_row)"
    by (simp add: create_ghi_vs_generation_hour_def ghi_vs_generation_try_def cols df_sunny_filtered
        sample_head_def Let_def)
  have t0: "create_ghi_vs_generation_temp sample_head 0 (\<lambda>df. True) df_sunny = Graph (replicate 10000 sunny_row)"
    by (simp add: create_ghi_vs_generation_temp_def ghi_vs_generation_try_def cols df_sunny_filtered
        sample_head_def Let_def)
  note inst = scatter_sampling_bounded_deterministic[OF size seeded, of 0 "\<lambda>df. True" df_sunny 1]
  from inst have h1: "create_ghi_vs_generation_hour sample_head 0 (\<lambda>df. True) df_sunny
      = create_ghi_vs_generation_hour sample_head 1 (\<lambda>df. True) df_sunny"
    by blast
  from inst have t1: "create_ghi_vs_generation_temp sample_head 0 (\<lambda>df. True) df_sunny
      = create_ghi_vs_generation_temp sample_head 1 (\<lambda>df. True) df_sunny"
    by blast
  from inst h0 have b: "length (replicate 10000 sunny_row) \<le> 10000"
    by blast
  have size': "\<forall>g n s rs. length (sample_head g n (Some s) rs) = min n (length rs)"
    by (simp add: sample_head_def min.commute)
  from size' seeded len h0 t0 h1 t1 b show ?thesis
    by (simp only: simp_thms)
qed

end
